theory Spec2Isabelle
  imports Main
begin

section \<open>Data model of the download bot (src/bot.py)\<close>

text \<open>
  The bot keeps one session dictionary per chat. A session holds the item that is being
  processed (\<open>active_download\<close>), the list of submitted items (\<open>queue\<close>) and two message
  ids of the presentation layer. Items are Python dictionaries, and the code shares them:
  the click handler stores the very dictionary of the queue in \<open>active_download\<close>, so an
  assignment to \<open>session['active_download']['status']\<close> is then visible through the queue as
  well. After a reload from the JSON file the two are separate objects again. The model
  therefore keeps items in a store and lets the session hold references.
\<close>

type_synonym ref = nat

text \<open>
  An item dictionary. \<open>url\<close>, \<open>title\<close> and \<open>status\<close> are written at creation (line 812);
  \<open>unique_id\<close> is read with \<open>.get\<close> everywhere, so its absence is the value \<open>None\<close>;
  \<open>initial_message_id\<close> and \<open>format_string\<close> are added by the click handler and read with
  \<open>[...]\<close> by the pipeline (a missing key raises KeyError there).
\<close>

record item =
  url :: string
  title :: string
  status :: string
  unique_id :: "string option"
  initial_message_id :: "int option"
  format_string :: "string option"

record session =
  active_download :: "ref option"
  queue :: "ref list"
  last_user_message_id :: "int option"
  selection_buttons_message_id :: "int option"

subsection \<open>Constants (lines 27-37)\<close>

text \<open>
  Line 32 is the float product \<open>1.95 * 1000 * 1000 * 1000\<close>; in IEEE double arithmetic it
  is exactly \<open>1950000000.0\<close>, and Python compares an integer with a float by value.
\<close>

definition TELEGRAM_MAX_FILE_SIZE_BYTES :: int where
  "TELEGRAM_MAX_FILE_SIZE_BYTES = 1950000000"

definition TELEGRAM_VIDEO_FILE_SIZE_LIMIT_BYTES :: int where
  "TELEGRAM_VIDEO_FILE_SIZE_LIMIT_BYTES = 50 * 1024 * 1024"

text \<open>The literal of line 491, the bound of \<open>asyncio.wait_for\<close> around the download.\<close>

definition DOWNLOAD_TIMEOUT_SECONDS :: nat where
  "DOWNLOAD_TIMEOUT_SECONDS = 300"

text \<open>
  The two title placeholders are Chinese literals; they are kept as their UTF-8 bytes:
  line 812 \<open>'[...]'\<close> ("parsing") and lines 109-115 ("parse failed").
\<close>

definition TITLE_PARSING :: string where
  "TITLE_PARSING = [CHR ''['', CHR 0xE8, CHR 0xA7, CHR 0xA3, CHR 0xE6, CHR 0x9E, CHR 0x90,
     CHR 0xE4, CHR 0xB8, CHR 0xAD, CHR '']'']"

definition TITLE_PARSE_FAILED :: string where
  "TITLE_PARSE_FAILED = [CHR ''['', CHR 0xE8, CHR 0xA7, CHR 0xA3, CHR 0xE6, CHR 0x9E, CHR 0x90,
     CHR 0xE5, CHR 0xA4, CHR 0xB1, CHR 0xE8, CHR 0xB4, CHR 0xA5, CHR '']'']"

subsection \<open>What the run tells the outside world\<close>

text \<open>
  The texts the pipeline writes into the status message, one constructor per f-string of
  \<open>download_and_send_video\<close> (the number is the source line of the literal).
\<close>

datatype message =
    MsgSizeUnknown          \<comment> \<open>428: found, size cannot be estimated, will download and decide\<close>
  | MsgEstimateExceedsLimit \<comment> \<open>431: estimate exceeds the upload limit, cannot process\<close>
  | MsgStartDownload        \<comment> \<open>436 and 444: found (size ...MB), starting download\<close>
  | MsgChooseQuality        \<comment> \<open>440: file is large, please choose a quality\<close>
  | MsgDownloadTimeout      \<comment> \<open>495: download timed out (5 minutes)\<close>
  | MsgDownloadFailed       \<comment> \<open>508: download failed\<close>
  | MsgDownloadUnknownError \<comment> \<open>521: unknown error while downloading\<close>
  | MsgActualExceedsLimit   \<comment> \<open>550: actual size exceeds the upload limit, cannot process\<close>
  | MsgActualOver50MB       \<comment> \<open>569: actual size is over 50MB, choose another quality or save\<close>
  | MsgSendingNow           \<comment> \<open>592: download complete, sending\<close>
  | MsgFileNotFound         \<comment> \<open>667: downloaded file not found\<close>
  | MsgProcessingFailed     \<comment> \<open>673: processing failed (outer DownloadError handler)\<close>
  | MsgUnknownError         \<comment> \<open>687: unknown error (outer Exception handler)\<close>

text \<open>
  \<open>reply_markup\<close> of an edit: none, or the four quality buttons (medium, lowest,
  save to list, cancel) of lines 455-460 and 559-564.
\<close>

datatype markup = NoMarkup | QualityKeyboard

section \<open>The size decision before the download (lines 416, 424-445)\<close>

text \<open>Python's \<open>a or b\<close> on optional integers: \<open>None\<close> and \<open>0\<close> are falsy.\<close>

definition py_or :: "int option \<Rightarrow> int option \<Rightarrow> int option" where
  "py_or a b = (case a of None \<Rightarrow> b | Some n \<Rightarrow> if n = 0 then b else Some n)"

text \<open>
  The \<open>if\<close>/\<open>elif\<close> chain of lines 427-445. It sets three locals: the text of the status
  message, \<open>action_needed\<close> and \<open>send_as_video\<close> (which starts as \<open>False\<close>, line 368).
\<close>

record probe_decision =
  message_to_edit :: message
  action_needed :: bool
  send_as_video :: bool

definition decide_on_estimate :: "int option \<Rightarrow> string \<Rightarrow> probe_decision" where
  "decide_on_estimate file_size_initial_estimate fmt =
     (case file_size_initial_estimate of
        None \<Rightarrow>
          \<lparr>message_to_edit = MsgSizeUnknown, action_needed = False, send_as_video = False\<rparr>
      | Some est \<Rightarrow>
          if est > TELEGRAM_MAX_FILE_SIZE_BYTES then
            \<lparr>message_to_edit = MsgEstimateExceedsLimit, action_needed = True,
             send_as_video = False\<rparr>
          else if est \<le> TELEGRAM_VIDEO_FILE_SIZE_LIMIT_BYTES then
            \<lparr>message_to_edit = MsgStartDownload, action_needed = False, send_as_video = True\<rparr>
          else if fmt = ''best'' then
            \<lparr>message_to_edit = MsgChooseQuality, action_needed = True, send_as_video = False\<rparr>
          else
            \<lparr>message_to_edit = MsgStartDownload, action_needed = False,
             send_as_video = False\<rparr>)"

subsection \<open>The resolver as the specification words it\<close>

text \<open>
  The specification names five outcomes. The code has no such enumeration: a branch is
  known by the three locals it sets. \<open>resolver_spec\<close> follows the specification's words,
  \<open>branch_locals\<close> gives the locals of the branch that stands for each outcome.
\<close>

datatype resolution =
  PROCEED_AS_VIDEO | REJECT_TOO_LARGE | NEEDS_SELECTION | PROCEED_ANYWAY | PROCEED_UNKNOWN

definition resolver_spec :: "int option \<Rightarrow> bool \<Rightarrow> resolution" where
  "resolver_spec estimate is_default_format =
     (case estimate of
        None \<Rightarrow> PROCEED_UNKNOWN
      | Some e \<Rightarrow>
          if e \<le> 50 * 1024 * 1024 then PROCEED_AS_VIDEO
          else if e > 1950000000 then REJECT_TOO_LARGE
          else if is_default_format then NEEDS_SELECTION
          else PROCEED_ANYWAY)"

fun branch_locals :: "resolution \<Rightarrow> probe_decision" where
  "branch_locals PROCEED_UNKNOWN =
     \<lparr>message_to_edit = MsgSizeUnknown, action_needed = False, send_as_video = False\<rparr>"
| "branch_locals REJECT_TOO_LARGE =
     \<lparr>message_to_edit = MsgEstimateExceedsLimit, action_needed = True, send_as_video = False\<rparr>"
| "branch_locals PROCEED_AS_VIDEO =
     \<lparr>message_to_edit = MsgStartDownload, action_needed = False, send_as_video = True\<rparr>"
| "branch_locals NEEDS_SELECTION =
     \<lparr>message_to_edit = MsgChooseQuality, action_needed = True, send_as_video = False\<rparr>"
| "branch_locals PROCEED_ANYWAY =
     \<lparr>message_to_edit = MsgStartDownload, action_needed = False, send_as_video = False\<rparr>"

section \<open>The pipeline \<open>download_and_send_video\<close> (lines 356-754)\<close>

subsection \<open>Exceptions, effects and the environment\<close>

text \<open>
  The exception classes the control flow tells apart: the outer \<open>try\<close> has a handler for
  \<open>yt_dlp.utils.DownloadError\<close> and one for every other \<open>Exception\<close>; the inner \<open>try\<close>
  around the download has one more for \<open>asyncio.TimeoutError\<close>.
\<close>

datatype py_exn =
  KeyError | TypeError | TimeoutError | DownloadError | TelegramError | UnboundLocalError
  | OtherError

datatype outcome = Return bool | Raise py_exn

text \<open>The calls to the outside, in the order the run makes them.\<close>

datatype event =
    Save                                  \<comment> \<open>\<open>save_user_session\<close>\<close>
  | ExtractInfo string string             \<comment> \<open>413: probe of url with format, no download\<close>
  | Download string string nat            \<comment> \<open>489-492: url, format, timeout in seconds\<close>
  | ExtractInfoAfterDownload              \<comment> \<open>535-536\<close>
  | ExtractThumbnail string               \<comment> \<open>585\<close>
  | EditMessage int message markup bool   \<comment> \<open>\<open>edit_message_text\<close>: message id, text, markup, accepted\<close>
  | SendToUser string bool                \<comment> \<open>603: the file sent to the user, and whether it arrived\<close>
  | DeleteMessage int                     \<comment> \<open>609\<close>
  | SendToChannel string                  \<comment> \<open>619: best-effort copy to the channel\<close>
  | RemoveFile string                     \<comment> \<open>705\<close>
  | RemoveThumbnail string                \<comment> \<open>714\<close>

text \<open>
  The state of a run: the session, the store of item dictionaries with the address the
  next new dictionary gets, the calls made so far, and the two locals that the
  \<open>finally\<close> block reads (\<open>None\<close> at entry, lines 367-369).
\<close>

record state =
  sess :: session
  heap :: "ref \<Rightarrow> item"
  next_ref :: ref
  trace :: "event list"
  file_path :: "string option"
  thumbnail_path :: "string option"

text \<open>Lines 27-29: the retention policy and the channel of the deployment.\<close>

record config =
  SHOULD_DELETE_FILE :: bool
  TELEGRAM_CHANNEL_ID :: "string option"

text \<open>
  What the collaborators answer during one run. The probe (line 413) returns the
  \<open>title\<close>, \<open>filesize\<close> and \<open>filesize_approx\<close> entries of the info dictionary (each may
  be missing) or raises; the download (lines 489-492) completes or raises; the second
  \<open>extract_info\<close> with \<open>prepare_filename\<close> (lines 535-536) gives the path or raises;
  \<open>os.path.exists\<close> and \<open>os.path.getsize\<close> of that path; \<open>extract_thumbnail\<close> and
  \<open>_send_media_file\<close> catch their own exceptions and return a boolean. The gateway
  accepts or refuses each \<open>edit_message_text\<close>, by the number of edits made before it.
\<close>

datatype probe_outcome =
    ProbeInfo "string option" "int option" "int option"
  | ProbeRaises py_exn

record env =
  probe :: probe_outcome
  download :: "py_exn option"
  info_after_download :: "py_exn + string"
  file_exists :: bool
  actual_file_size :: int
  thumbnail_extracted :: bool
  user_send_success :: bool
  edit_accepted :: "nat \<Rightarrow> bool"

subsection \<open>Primitive steps\<close>

definition add_event :: "event \<Rightarrow> state \<Rightarrow> state" where
  "add_event e st = st\<lparr>trace := trace st @ [e]\<rparr>"

text \<open>\<open>save_user_session\<close> (lines 81-88) catches every exception of its own.\<close>

definition save :: "state \<Rightarrow> state" where
  "save st = add_event Save st"

definition set_status :: "ref \<Rightarrow> string \<Rightarrow> state \<Rightarrow> state" where
  "set_status r s st = st\<lparr>heap := (heap st)(r := (heap st r)\<lparr>status := s\<rparr>)\<rparr>"

definition set_title :: "ref \<Rightarrow> string \<Rightarrow> state \<Rightarrow> state" where
  "set_title r t st = st\<lparr>heap := (heap st)(r := (heap st r)\<lparr>title := t\<rparr>)\<rparr>"

fun is_edit :: "event \<Rightarrow> bool" where
  "is_edit (EditMessage _ _ _ _) = True"
| "is_edit _ = False"

text \<open>
  One \<open>await context.bot.edit_message_text(...)\<close>: the call is recorded, and the boolean
  says whether it returned (\<open>False\<close>: it raised a \<open>TelegramError\<close>).
\<close>

definition edits_before :: "state \<Rightarrow> nat" where
  "edits_before st = length (filter is_edit (trace st))"

definition edit_message_text :: "env \<Rightarrow> int \<Rightarrow> message \<Rightarrow> markup \<Rightarrow> state \<Rightarrow> bool \<times> state" where
  "edit_message_text en mid text mk st =
     (let ok = edit_accepted en (edits_before st)
      in (ok, add_event (EditMessage mid text mk ok) st))"

text \<open>
  The test of lines 379 and 598: there is an active download and its \<open>unique_id\<close> differs
  from the one of \<open>download_item\<close>.
\<close>

definition superseded :: "ref \<Rightarrow> state \<Rightarrow> bool" where
  "superseded d st =
     (case active_download (sess st) of
        None \<Rightarrow> False
      | Some a \<Rightarrow> unique_id (heap st a) \<noteq> unique_id (heap st d))"

text \<open>The list comprehension of lines 384, 724, 728 and 733.\<close>

definition remove_from_queue :: "string option \<Rightarrow> state \<Rightarrow> state" where
  "remove_from_queue uid st =
     st\<lparr>sess := (sess st)\<lparr>queue := filter (\<lambda>r. unique_id (heap st r) \<noteq> uid) (queue (sess st))\<rparr>\<rparr>"

text \<open>
  The loop of lines 736-743 (and 203-210): the first queue entry with the given id gets
  the status of the active item; when there is none, the active item itself is appended.
\<close>

definition fold_into_queue :: "ref \<Rightarrow> string option \<Rightarrow> state \<Rightarrow> state" where
  "fold_into_queue a uid st =
     (case find (\<lambda>r. unique_id (heap st r) = uid) (queue (sess st)) of
        Some r \<Rightarrow> set_status r (status (heap st a)) st
      | None \<Rightarrow> st\<lparr>sess := (sess st)\<lparr>queue := queue (sess st) @ [a]\<rparr>\<rparr>)"

definition clear_active :: "state \<Rightarrow> state" where
  "clear_active st = st\<lparr>sess := (sess st)\<lparr>active_download := None\<rparr>\<rparr>"

subsection \<open>The stages of the \<open>try\<close> block\<close>

text \<open>
  In the stages \<open>a\<close> is the dictionary \<open>session['active_download']\<close>: the function assigns
  to that key only in its \<open>finally\<close> block, so the key holds the reference read at line 388
  throughout the \<open>try\<close> block. \<open>mid\<close>, \<open>u\<close> and \<open>fmt\<close> are the locals
  \<open>initial_message_id\<close>, \<open>url\<close> and \<open>format_string\<close> of lines 361-363.
\<close>

text \<open>
  Lines 602-659. When the send to the user fails, line 641 sets \<open>failed_sending\<close>; the
  f-string of line 647 then reads the local \<open>e\<close>, which is bound only inside the
  \<open>except ... as e\<close> clauses of lines 520, 611 and 686 and is unbound here. The
  \<open>UnboundLocalError\<close> is raised while the argument is built, before the edit is called,
  is caught at line 650, and is raised again by the f-string of line 654, inside that
  handler, before \<open>send_message\<close> is called. It leaves the \<open>try\<close> block of line 391.
\<close>

definition deliver :: "config \<Rightarrow> env \<Rightarrow> int \<Rightarrow> ref \<Rightarrow> string \<Rightarrow> state \<Rightarrow> outcome \<times> state" where
  "deliver cfg en mid a path st0 =
     (let st1 = add_event (SendToUser path (user_send_success en)) st0 in
      if user_send_success en then
        (let st2 = add_event (DeleteMessage mid) st1;
             st3 = (case TELEGRAM_CHANNEL_ID cfg of
                      None \<Rightarrow> st2
                    | Some c \<Rightarrow> if c = [] then st2 else add_event (SendToChannel c) st2);
             st4 = set_status a ''completed'' st3
         in (Return True, save st4))
      else
        (Raise UnboundLocalError, set_status a ''failed_sending'' st1))"

text \<open>
  Lines 540-670, after the download: the measured size decides. Both limits are tested
  on the size alone; the format selector is not consulted here. In the last branch
  \<open>send_as_video\<close> is \<open>True\<close> (line 575), so the thumbnail is always tried (line 583).
\<close>

definition after_download ::
  "config \<Rightarrow> env \<Rightarrow> int \<Rightarrow> ref \<Rightarrow> ref \<Rightarrow> string \<Rightarrow> state \<Rightarrow> outcome \<times> state" where
  "after_download cfg en mid d a path st0 =
     (if file_exists en then
        if actual_file_size en > TELEGRAM_MAX_FILE_SIZE_BYTES then
          (let st1 = save (set_status a ''failed'' st0);
               (ok, st2) = edit_message_text en mid MsgActualExceedsLimit NoMarkup st1
           in if ok then (Return False, st2) else (Raise TelegramError, st2))
        else if actual_file_size en > TELEGRAM_VIDEO_FILE_SIZE_LIMIT_BYTES then
          (let st1 = save (set_status a ''awaiting_quality_selection'' st0);
               (ok, st2) = edit_message_text en mid MsgActualOver50MB QualityKeyboard st1
           in if ok then (Return False, st2) else (Raise TelegramError, st2))
        else
          (let st1 = add_event (ExtractThumbnail path) st0;
               st2 = (if thumbnail_extracted en
                      then st1\<lparr>thumbnail_path := Some (path @ ''.jpg'')\<rparr>
                      else st1\<lparr>thumbnail_path := None\<rparr>);
               (ok, st3) = edit_message_text en mid MsgSendingNow NoMarkup st2
           in if \<not> ok then (Raise TelegramError, st3)
              else
                (let st4 = save (set_status a ''sending'' st3) in
                 if superseded d st4 then (Return False, st4)
                 else deliver cfg en mid a path st4))
      else
        (let st1 = save (set_status a ''failed_last_attempt'' st0);
             (ok, st2) = edit_message_text en mid MsgFileNotFound NoMarkup st1
         in if ok then (Return False, st2) else (Raise TelegramError, st2)))"

text \<open>The three handlers of the inner \<open>try\<close> (lines 494-532) differ in the text only.\<close>

fun download_error_text :: "py_exn \<Rightarrow> message" where
  "download_error_text TimeoutError = MsgDownloadTimeout"
| "download_error_text DownloadError = MsgDownloadFailed"
| "download_error_text _ = MsgDownloadUnknownError"

text \<open>Lines 473-538: the download under its timeout, then the path of the file.\<close>

definition download_stage ::
  "config \<Rightarrow> env \<Rightarrow> int \<Rightarrow> string \<Rightarrow> string \<Rightarrow> ref \<Rightarrow> ref \<Rightarrow> state \<Rightarrow> outcome \<times> state" where
  "download_stage cfg en mid u fmt d a st0 =
     (let st1 = add_event (Download u fmt DOWNLOAD_TIMEOUT_SECONDS) st0 in
      case download en of
        Some x \<Rightarrow>
          (let st2 = save (set_status a ''failed_last_attempt'' st1);
               (ok, st3) = edit_message_text en mid (download_error_text x) NoMarkup st2
           in if ok then (Return False, st3) else (Raise TelegramError, st3))
      | None \<Rightarrow>
          (let st2 = add_event ExtractInfoAfterDownload st1 in
           case info_after_download en of
             Inl x \<Rightarrow> (Raise x, st2)
           | Inr path \<Rightarrow> after_download cfg en mid d a path (st2\<lparr>file_path := Some path\<rparr>)))"

text \<open>
  Lines 395-471: the probe, the new title, the decision on the estimate, and the halt
  with the quality buttons when \<open>action_needed\<close> is set. \<open>t0\<close> is the local
  \<open>video_title\<close> of line 364, the default of \<open>info_dict.get('title', video_title)\<close>.
\<close>

definition probe_stage ::
  "config \<Rightarrow> env \<Rightarrow> int \<Rightarrow> string \<Rightarrow> string \<Rightarrow> string \<Rightarrow> ref \<Rightarrow> ref \<Rightarrow> state \<Rightarrow> outcome \<times> state" where
  "probe_stage cfg en mid u fmt t0 d a st0 =
     (let st1 = add_event (ExtractInfo u fmt) st0 in
      case probe en of
        ProbeRaises x \<Rightarrow> (Raise x, st1)
      | ProbeInfo t filesize filesize_approx \<Rightarrow>
          (let video_title = (case t of None \<Rightarrow> t0 | Some t' \<Rightarrow> t');
               file_size_initial_estimate = py_or filesize filesize_approx;
               st2 = save (set_title a video_title st1);
               dec = decide_on_estimate file_size_initial_estimate fmt;
               (ok, st3) = edit_message_text en mid (message_to_edit dec) NoMarkup st2
           in if \<not> ok then (Raise TelegramError, st3)
              else if action_needed dec then
                (let (ok2, st4) = edit_message_text en mid (message_to_edit dec) QualityKeyboard st3
                 in if \<not> ok2 then (Raise TelegramError, st4)
                    else (Return False, save (set_status a ''awaiting_quality_selection'' st4)))
              else download_stage cfg en mid u fmt d a st3))"

subsection \<open>The handlers and the \<open>finally\<close> block\<close>

text \<open>
  Lines 672-698: both handlers of the outer \<open>try\<close> set \<open>failed_last_attempt\<close>, save, edit
  the status message and return \<open>False\<close>; an exception of that edit leaves the function
  (after the \<open>finally\<close> block).
\<close>

definition handle_exception :: "env \<Rightarrow> int \<Rightarrow> ref \<Rightarrow> py_exn \<Rightarrow> state \<Rightarrow> outcome \<times> state" where
  "handle_exception en mid a x st0 =
     (let text = (if x = DownloadError then MsgProcessingFailed else MsgUnknownError);
          st1 = save (set_status a ''failed_last_attempt'' st0);
          (ok, st2) = edit_message_text en mid text NoMarkup st1
      in if ok then (Return False, st2) else (Raise TelegramError, st2))"

text \<open>
  Lines 718-752, the reconciliation of the \<open>finally\<close> block. \<open>uid\<close> is
  \<open>download_item.get('unique_id')\<close>.
\<close>

definition reconcile_after_run :: "string option \<Rightarrow> state \<Rightarrow> state" where
  "reconcile_after_run uid st =
     (case active_download (sess st) of
        None \<Rightarrow> st
      | Some a \<Rightarrow>
          if unique_id (heap st a) \<noteq> uid then st
          else
            (let s = status (heap st a);
                 st1 = (if s = ''completed'' then remove_from_queue uid st
                        else if s = ''cancelled'' then remove_from_queue uid st
                        else if s \<in> set [''failed'', ''failed_sending'', ''failed_internal'']
                          then remove_from_queue uid st
                        else if s = ''parse_failed'' \<or> s = ''failed_last_attempt''
                          then fold_into_queue a uid st
                        else st)
             in if status (heap st1 a) \<notin> set [''awaiting_quality_selection'']
                then clear_active st1 else st1))"

text \<open>
  Lines 699-754. The file is removed only under the retention policy; \<open>os.path.exists\<close>
  answers as it did at line 540, and the thumbnail exists when it was extracted.
\<close>

definition finally_block :: "config \<Rightarrow> env \<Rightarrow> ref \<Rightarrow> state \<Rightarrow> state" where
  "finally_block cfg en d st0 =
     (let st1 = (case file_path st0 of
                   None \<Rightarrow> st0
                 | Some p \<Rightarrow>
                     if p \<noteq> [] \<and> file_exists en \<and> SHOULD_DELETE_FILE cfg
                     then add_event (RemoveFile p) st0 else st0);
          st2 = (case thumbnail_path st1 of
                   None \<Rightarrow> st1
                 | Some p \<Rightarrow> if p \<noteq> [] then add_event (RemoveThumbnail p) st1 else st1);
          st3 = reconcile_after_run (unique_id (heap st2 d)) st2
      in save st3)"

subsection \<open>The whole function\<close>

text \<open>
  \<open>d\<close> is the dictionary passed as \<open>download_item\<close>. Lines 362-363 read two keys with
  \<open>[...]\<close>; the guard of lines 379-386 returns before the \<open>try\<close> statement, so the
  \<open>finally\<close> block does not run for it; line 388 subscripts \<open>session['active_download']\<close>
  and raises a \<open>TypeError\<close> when the slot is empty, also before the \<open>try\<close>. The early
  return of lines 372-374 (no session for the chat) has no state to act on and is not
  part of the model: the function is given the session.
\<close>

definition download_and_send_video :: "config \<Rightarrow> env \<Rightarrow> ref \<Rightarrow> state \<Rightarrow> outcome \<times> state" where
  "download_and_send_video cfg en d st00 =
     (case initial_message_id (heap st00 d) of
        None \<Rightarrow> (Raise KeyError, st00)
      | Some mid \<Rightarrow>
          (case format_string (heap st00 d) of
             None \<Rightarrow> (Raise KeyError, st00)
           | Some fmt \<Rightarrow>
               (let u = url (heap st00 d);
                    t0 = title (heap st00 d);
                    st0 = st00\<lparr>file_path := None, thumbnail_path := None\<rparr>
                in if superseded d st0 then
                     (Return False, save (remove_from_queue (unique_id (heap st0 d)) st0))
                   else
                     (case active_download (sess st0) of
                        None \<Rightarrow> (Raise TypeError, st0)
                      | Some a \<Rightarrow>
                          (let st1 = save (set_status a ''downloading'' st0);
                               (o1, st2) = probe_stage cfg en mid u fmt t0 d a st1;
                               (o2, st3) = (case o1 of
                                              Raise x \<Rightarrow> handle_exception en mid a x st2
                                            | Return b \<Rightarrow> (o1, st2))
                           in (o2, finally_block cfg en d st3))))))"

section \<open>The list view (\<open>list_downloads\<close>, lines 194-225)\<close>

text \<open>
  Lines 200-212: an active item in one of the two retryable failure states is folded into
  the queue and the slot is cleared; any other active item stays in the slot.
\<close>

definition reconcile_for_list :: "state \<Rightarrow> state" where
  "reconcile_for_list st =
     (case active_download (sess st) of
        None \<Rightarrow> st
      | Some a \<Rightarrow>
          if status (heap st a) \<in> set [''parse_failed'', ''failed_last_attempt'']
          then save (clear_active (fold_into_queue a (unique_id (heap st a)) st))
          else st)"


section \<open>The start button (\<open>button_callback_handler\<close>, lines 891-980)\<close>

text \<open>
  The tests a click on \<open>start_download_<id>\<close> passes before the pipeline is started
  (lines 895-920, with \<open>is_reparse_action\<close> false): no active download, the item is found
  in the queue by its id, and its status is \<open>pending\<close> or \<open>failed_last_attempt\<close>.
\<close>

datatype start_decision = AlreadyActive | NotInQueue | WrongStatus | Start ref

definition start_download_decision :: "string \<Rightarrow> state \<Rightarrow> start_decision" where
  "start_download_decision item_id_to_process st =
     (if active_download (sess st) \<noteq> None then AlreadyActive
      else case find (\<lambda>r. unique_id (heap st r) = Some item_id_to_process) (queue (sess st)) of
             None \<Rightarrow> NotInQueue
           | Some r \<Rightarrow>
               if status (heap st r) \<notin> set [''pending'', ''failed_last_attempt'']
               then WrongStatus else Start r)"

text \<open>
  Lines 941-979 for a start click: the found dictionary gets the id of the new status
  message and becomes \<open>active_download\<close> (the same dictionary, not a copy); the first queue
  entry with the id is set to \<open>downloading\<close>; the format is \<open>best\<close>; the session is saved
  twice. Line 980 then calls the pipeline with \<open>session['active_download']\<close>.
\<close>

definition set_initial_message_id :: "ref \<Rightarrow> int \<Rightarrow> state \<Rightarrow> state" where
  "set_initial_message_id r m st =
     st\<lparr>heap := (heap st)(r := (heap st r)\<lparr>initial_message_id := Some m\<rparr>)\<rparr>"

definition set_format_string :: "ref \<Rightarrow> string \<Rightarrow> state \<Rightarrow> state" where
  "set_format_string r f st =
     st\<lparr>heap := (heap st)(r := (heap st r)\<lparr>format_string := Some f\<rparr>)\<rparr>"

definition promote_to_active :: "string \<Rightarrow> ref \<Rightarrow> int \<Rightarrow> state \<Rightarrow> state" where
  "promote_to_active item_id_to_process r status_message_id st0 =
     (let st1 = set_initial_message_id r status_message_id st0;
          st2 = st1\<lparr>sess := (sess st1)\<lparr>active_download := Some r\<rparr>\<rparr>;
          st3 = (case find (\<lambda>q. unique_id (heap st2 q) = Some item_id_to_process)
                        (queue (sess st2)) of
                   None \<Rightarrow> st2
                 | Some q \<Rightarrow> set_initial_message_id q status_message_id
                               (set_status q ''downloading'' st2));
          st4 = save st3;
          st5 = set_format_string r ''best'' st4
      in save st5)"

section \<open>New links (\<open>handle_video_link\<close>, lines 798-852)\<close>

text \<open>
  The locals of the loop over the URLs of one message, and what the loop asks of the
  outside: the \<open>uuid4\<close> drawn for the URL at position \<open>i\<close>, and whether the reply of
  line 831 for that URL is accepted by the gateway.
\<close>

record link_locals =
  existing_urls :: "string set"
  new_urls_to_fetch_titles :: "string list"
  new_items_added_indices :: "nat list"
  new_items_added_count :: nat

record link_env =
  uuid4 :: "nat \<Rightarrow> string"
  reply_accepted :: "nat \<Rightarrow> bool"

text \<open>Lines 799-807.\<close>

definition initial_link_locals :: "state \<Rightarrow> link_locals" where
  "initial_link_locals st =
     \<lparr>existing_urls =
        (case active_download (sess st) of None \<Rightarrow> {} | Some a \<Rightarrow> {url (heap st a)})
        \<union> set (map (\<lambda>r. url (heap st r)) (queue (sess st))),
      new_urls_to_fetch_titles = [],
      new_items_added_indices = [],
      new_items_added_count = 0\<rparr>"

text \<open>Line 812: the dictionary of a new item.\<close>

definition new_item :: "string \<Rightarrow> string \<Rightarrow> item" where
  "new_item u uid =
     \<lparr>url = u, title = TITLE_PARSING, status = ''pending'', unique_id = Some uid,
      initial_message_id = None, format_string = None\<rparr>"

text \<open>
  One round of the loop (lines 810-832) for the URL \<open>u\<close> at position \<open>i\<close>. The result is
  the exception that leaves the handler, if any: only the reply of line 831 can raise.
\<close>

definition enqueue_url ::
  "link_env \<Rightarrow> nat \<Rightarrow> string \<Rightarrow> state \<times> link_locals \<Rightarrow> py_exn option \<times> state \<times> link_locals" where
  "enqueue_url le i u sl =
     (let st = fst sl; ls = snd sl in
      if u \<notin> existing_urls ls then
        (let r = next_ref st;
             st' = st\<lparr>heap := (heap st)(r := new_item u (uuid4 le i)),
                      next_ref := Suc r,
                      sess := (sess st)\<lparr>queue := queue (sess st) @ [r]\<rparr>\<rparr>;
             ls' = ls\<lparr>new_items_added_indices :=
                         new_items_added_indices ls @ [length (queue (sess st')) - 1],
                       new_urls_to_fetch_titles := new_urls_to_fetch_titles ls @ [u],
                       existing_urls := insert u (existing_urls ls),
                       new_items_added_count := new_items_added_count ls + 1\<rparr>
         in (None, st', ls'))
      else
        (let found_item =
               (case active_download (sess st) of
                  None \<Rightarrow> find (\<lambda>r. url (heap st r) = u) (queue (sess st))
                | Some a \<Rightarrow>
                    if url (heap st a) = u then Some a
                    else find (\<lambda>r. url (heap st r) = u) (queue (sess st)))
         in case found_item of
              None \<Rightarrow> (None, st, ls)
            | Some f \<Rightarrow>
                if status (heap st f) \<in> set [''parse_failed'', ''failed_last_attempt'']
                then (if reply_accepted le i then (None, st, ls)
                      else (Some TelegramError, st, ls))
                else (None, st, ls)))"

text \<open>The loop of line 809 from position \<open>i\<close> on; an exception ends it.\<close>

fun enqueue_urls ::
  "link_env \<Rightarrow> nat \<Rightarrow> string list \<Rightarrow> state \<times> link_locals \<Rightarrow> py_exn option \<times> state \<times> link_locals" where
  "enqueue_urls le i [] sl = (None, sl)"
| "enqueue_urls le i (u # us) sl =
     (case enqueue_url le i u sl of
        (Some x, sl') \<Rightarrow> (Some x, sl')
      | (None, sl') \<Rightarrow> enqueue_urls le (Suc i) us sl')"

text \<open>
  Lines 843-850: the results of the title probes, applied to the session as it is when
  they arrive. A result is the recorded queue index, the URL it was started for, the
  title and the error type (\<open>None\<close>, \<open>'timeout'\<close> or \<open>'failed'\<close>) of \<open>get_video_title\<close>.
  Python's index raises IndexError out of range; the \<open>and\<close> of line 846 evaluates the
  subscript only after the bound test.
\<close>

definition py_index :: "'a list \<Rightarrow> nat \<Rightarrow> py_exn + 'a" where
  "py_index xs i = (if i < length xs then Inr (xs ! i) else Inl OtherError)"

definition apply_title_result ::
  "nat \<times> string \<times> string \<times> string option \<Rightarrow> state \<Rightarrow> py_exn + state" where
  "apply_title_result res st =
     (case res of (queue_idx, u, t, error_type) \<Rightarrow>
        if queue_idx < length (queue (sess st)) then
          (case py_index (queue (sess st)) queue_idx of
             Inl x \<Rightarrow> Inl x
           | Inr r \<Rightarrow>
               if url (heap st r) = u then
                 (let st1 = set_title r t st in
                  case error_type of
                    None \<Rightarrow> Inr st1
                  | Some e \<Rightarrow> if e = [] then Inr st1 else Inr (set_status r ''parse_failed'' st1))
               else Inr st)
        else Inr st)"

fun apply_title_results ::
  "(nat \<times> string \<times> string \<times> string option) list \<Rightarrow> state \<Rightarrow> py_exn + state" where
  "apply_title_results [] st = Inr st"
| "apply_title_results (res # rest) st =
     (case apply_title_result res st of
        Inl x \<Rightarrow> Inl x
      | Inr st' \<Rightarrow> apply_title_results rest st')"

section \<open>Loading a session (\<open>load_user_session\<close>, lines 60-79)\<close>

text \<open>
  What \<open>json.load\<close> can return, and what the file of a chat can be: missing, not
  readable (any exception of \<open>open\<close> or of the decoding), not JSON, or a JSON value.
  A dictionary is the list of its entries in order, with each key once.
\<close>

datatype json =
  JNull | JBool bool | JNum int | JStr string | JArr "json list" | JObj "(string \<times> json) list"

datatype file_content = Missing | Unreadable | Malformed | Parsed json

text \<open>\<open>dict.setdefault\<close>, used for its effect on the dictionary.\<close>

definition setdefault :: "string \<Rightarrow> json \<Rightarrow> (string \<times> json) list \<Rightarrow> (string \<times> json) list" where
  "setdefault k v d = (if k \<in> fst ` set d then d else d @ [(k, v)])"

text \<open>
  Lines 65-72, the body of the \<open>try\<close>: \<open>open\<close> and \<open>json.load\<close> may raise, and
  \<open>setdefault\<close> on a value that is not a dictionary raises an AttributeError.
\<close>

definition load_body :: "file_content \<Rightarrow> py_exn + (string \<times> json) list" where
  "load_body fc =
     (case fc of
        Missing \<Rightarrow> Inl OtherError
      | Unreadable \<Rightarrow> Inl OtherError
      | Malformed \<Rightarrow> Inl OtherError
      | Parsed j \<Rightarrow>
          (case j of
             JObj session_data \<Rightarrow>
               Inr (setdefault ''selection_buttons_message_id'' JNull
                     (setdefault ''last_user_message_id'' JNull
                       (setdefault ''queue'' (JArr [])
                         (setdefault ''active_download'' JNull session_data))))
           | _ \<Rightarrow> Inl OtherError))"

text \<open>
  The function: \<open>None\<close> when the file does not exist (lines 63, 79) and in both handlers
  (lines 73-78).
\<close>

definition load_user_session :: "file_content \<Rightarrow> (string \<times> json) list option" where
  "load_user_session fc =
     (if fc = Missing then None
      else case load_body fc of Inl x \<Rightarrow> None | Inr session_data \<Rightarrow> Some session_data)"

text \<open>
  The callers (lines 168-179, 765-776, 869-877): a session that could not be loaded is
  replaced by the empty one.
\<close>

definition empty_session_data :: "(string \<times> json) list" where
  "empty_session_data =
     [(''active_download'', JNull), (''queue'', JArr []), (''last_user_message_id'', JNull),
      (''selection_buttons_message_id'', JNull)]"

definition session_or_empty :: "file_content \<Rightarrow> (string \<times> json) list" where
  "session_or_empty fc =
     (case load_user_session fc of None \<Rightarrow> empty_session_data | Some session \<Rightarrow> session)"

section \<open>Auxiliary notions for the proofs\<close>

text \<open>
  Two states that differ at most in the dictionary \<open>a\<close> and in the calls made and the
  locals of the run, with the id and the URL of every dictionary kept.
\<close>

definition same_but_active :: "ref \<Rightarrow> state \<Rightarrow> state \<Rightarrow> bool" where
  "same_but_active a st st' \<longleftrightarrow>
     sess st' = sess st \<and> next_ref st' = next_ref st \<and>
     (\<forall>r. unique_id (heap st' r) = unique_id (heap st r) \<and> url (heap st' r) = url (heap st r)
        \<and> (r \<noteq> a \<longrightarrow> heap st' r = heap st r))"

text \<open>
  The state in which the size of the downloaded file is checked (line 540), for a run
  that started in \<open>st\<close>: the active item is \<open>downloading\<close> and has its new title, the
  probe, the announcing edit and the download have been made, and \<open>file_path\<close> is set.
\<close>

definition state_at_size_check ::
  "ref \<Rightarrow> int \<Rightarrow> string \<Rightarrow> string \<Rightarrow> string \<Rightarrow> message \<Rightarrow> string \<Rightarrow> state \<Rightarrow> state" where
  "state_at_size_check a mid u fmt t m path st =
     st\<lparr>heap := (heap st)(a := (heap st a)\<lparr>status := ''downloading'', title := t\<rparr>),
        trace := trace st @
          [Save, ExtractInfo u fmt, Save, EditMessage mid m NoMarkup True,
           Download u fmt DOWNLOAD_TIMEOUT_SECONDS, ExtractInfoAfterDownload],
        file_path := Some path,
        thumbnail_path := None\<rparr>"

section \<open>Sample inputs\<close>

text \<open>
  A session with two queued items, the first of them active and shared with the queue
  (as the start button leaves it), and collaborators that all succeed on a 30 MB file.
\<close>

definition blank_item :: item where
  "blank_item =
     \<lparr>url = [], title = [], status = ''pending'', unique_id = None,
      initial_message_id = None, format_string = None\<rparr>"

definition sample_item :: "string \<Rightarrow> string \<Rightarrow> string \<Rightarrow> item" where
  "sample_item u uid s =
     \<lparr>url = u, title = TITLE_PARSING, status = s, unique_id = Some uid,
      initial_message_id = Some 7, format_string = Some ''best''\<rparr>"

definition sample_state :: state where
  "sample_state =
     \<lparr>sess = \<lparr>active_download = Some 0, queue = [0, 1], last_user_message_id = None,
              selection_buttons_message_id = None\<rparr>,
      heap = (\<lambda>_. blank_item)
        (0 := sample_item ''https://example.org/a'' ''id-a'' ''downloading'',
         1 := sample_item ''https://example.org/b'' ''id-b'' ''pending''),
      next_ref = 2,
      trace = [],
      file_path = None,
      thumbnail_path = None\<rparr>"

definition sample_env :: env where
  "sample_env =
     \<lparr>probe = ProbeInfo (Some ''clip'') (Some (30 * 1024 * 1024)) None,
      download = None,
      info_after_download = Inr ''clip.mp4'',
      file_exists = True,
      actual_file_size = 30 * 1024 * 1024,
      thumbnail_extracted = True,
      user_send_success = True,
      edit_accepted = (\<lambda>_. True)\<rparr>"

text \<open>A gateway that accepts the first edit of the status message and refuses the later ones.\<close>

definition accepts_first_edit_only :: "nat \<Rightarrow> bool" where
  "accepts_first_edit_only n = (n = 0)"

definition sample_config :: config where
  "sample_config = \<lparr>SHOULD_DELETE_FILE = True, TELEGRAM_CHANNEL_ID = None\<rparr>"

section \<open>Properties\<close>

lemma branch_locals_inj: "inj branch_locals"
proof (rule injI)
  fix a b
  assume "branch_locals a = branch_locals b"
  then show "a = b"
    by (cases a; cases b) simp_all
qed

text \<open>
  Claim C2. The decision taken on the probed estimate is the specification's resolver:
  for every estimate and every format selector the code takes the branch of the outcome
  that \<open>resolver_spec\<close> names (the five branches set pairwise different locals, so the
  branch determines the outcome): at most 50 MB proceeds as video, above 1.95 GB is
  rejected, in between the default format \<open>best\<close> needs a selection and any other format
  proceeds anyway, and no estimate proceeds with the size unknown. The five sample points
  of the specification are instances.
\<close>

theorem C2_probe_stage_resolver:
  "decide_on_estimate estimate fmt = branch_locals (resolver_spec estimate (fmt = ''best''))
   \<and> inj branch_locals
   \<and> resolver_spec (Some (40 * 1024 * 1024)) (fmt = ''best'') = PROCEED_AS_VIDEO
   \<and> resolver_spec (Some 2500000000) (fmt = ''best'') = REJECT_TOO_LARGE
   \<and> decide_on_estimate (Some (40 * 1024 * 1024)) fmt = branch_locals PROCEED_AS_VIDEO
   \<and> decide_on_estimate (Some 2500000000) fmt = branch_locals REJECT_TOO_LARGE
   \<and> decide_on_estimate (Some (100 * 1024 * 1024)) ''best'' = branch_locals NEEDS_SELECTION
   \<and> decide_on_estimate (Some (100 * 1024 * 1024)) ''worst'' = branch_locals PROCEED_ANYWAY
   \<and> decide_on_estimate None fmt = branch_locals PROCEED_UNKNOWN"
proof -
  have general: "decide_on_estimate e f = branch_locals (resolver_spec e (f = ''best''))"
    for e f
    by (cases e)
      (simp_all add: decide_on_estimate_def resolver_spec_def
        TELEGRAM_MAX_FILE_SIZE_BYTES_def TELEGRAM_VIDEO_FILE_SIZE_LIMIT_BYTES_def)
  have samples:
    "resolver_spec (Some (40 * 1024 * 1024)) b = PROCEED_AS_VIDEO"
    "resolver_spec (Some 2500000000) b = REJECT_TOO_LARGE"
    "resolver_spec (Some (100 * 1024 * 1024)) True = NEEDS_SELECTION"
    "resolver_spec (Some (100 * 1024 * 1024)) False = PROCEED_ANYWAY"
    "resolver_spec None b = PROCEED_UNKNOWN" for b
    by (simp_all add: resolver_spec_def)
  show ?thesis
    unfolding general using samples branch_locals_inj by simp
qed

lemmas prim_defs = add_event_def save_def set_status_def set_title_def edit_message_text_def
  clear_active_def remove_from_queue_def edits_before_def

lemma deliver_frame:
  "deliver cfg en mid a path st = (out, st') \<Longrightarrow> same_but_active a st st'"
  by (auto simp: same_but_active_def deliver_def prim_defs Let_def split: if_splits option.splits)

lemma after_download_frame:
  "after_download cfg en mid d a path st = (out, st') \<Longrightarrow> same_but_active a st st'"
  by (auto simp: same_but_active_def after_download_def deliver_def superseded_def prim_defs Let_def split: if_splits option.splits)

lemma download_stage_frame:
  "download_stage cfg en mid u fmt d a st = (out, st') \<Longrightarrow> same_but_active a st st'"
  by (auto simp: same_but_active_def download_stage_def  prim_defs Let_def split: if_splits option.splits sum.splits dest!: after_download_frame)

lemma probe_stage_frame:
  "probe_stage cfg en mid u fmt t0 d a st = (out, st') \<Longrightarrow> same_but_active a st st'"
  by (auto simp: same_but_active_def probe_stage_def  prim_defs Let_def split: if_splits option.splits sum.splits probe_outcome.splits dest!: download_stage_frame)

lemma handle_exception_frame:
  "handle_exception en mid a x st = (out, st') \<Longrightarrow> same_but_active a st st'"
  by (auto simp: same_but_active_def handle_exception_def prim_defs Let_def split: if_splits)

lemma filter_distinct_single:
  "distinct (map f xs) \<Longrightarrow> x \<in> set xs \<Longrightarrow> filter (\<lambda>y. f y = f x) xs = [x]"
proof (induction xs)
  case Nil
  then show ?case by simp
next
  case (Cons y ys)
  show ?case
  proof (cases "y = x")
    case True
    with Cons.prems have "\<forall>z\<in>set ys. f z \<noteq> f x" by (auto simp: image_iff)
    then have "filter (\<lambda>y. f y = f x) ys = []" by (simp add: filter_empty_conv)
    with True show ?thesis by simp
  next
    case False
    with Cons.prems have "x \<in> set ys" "f y \<noteq> f x" by (auto simp: image_iff)
    with Cons show ?thesis by simp
  qed
qed

lemma reconcile_add_event:
  "reconcile_after_run uid (add_event e st) = add_event e (reconcile_after_run uid st)"
  by (simp add: reconcile_after_run_def fold_into_queue_def prim_defs Let_def
      split: option.splits)

lemma finally_block_eq:
  "sess (finally_block cfg en d st) = sess (reconcile_after_run (unique_id (heap st d)) st)
   \<and> heap (finally_block cfg en d st) = heap (reconcile_after_run (unique_id (heap st d)) st)
   \<and> next_ref (finally_block cfg en d st) = next_ref (reconcile_after_run (unique_id (heap st d)) st)"
  by (simp add: finally_block_def Let_def reconcile_add_event save_def split: option.splits)
    (simp add: add_event_def)

lemma reconcile_slot:
  assumes "active_download (sess st) = Some a" and "unique_id (heap st a) = uid"
  shows "status (heap (reconcile_after_run uid st) a) = status (heap st a)
    \<and> (if status (heap st a) = ''awaiting_quality_selection''
        then active_download (sess (reconcile_after_run uid st)) = Some a
        else active_download (sess (reconcile_after_run uid st)) = None)"
  using assms
  by (auto simp add: reconcile_after_run_def fold_into_queue_def prim_defs Let_def
      split: option.splits)

lemma fold_into_queue_once:
  assumes "unique_id (heap st a) = uid"
    and "distinct (map (\<lambda>r. unique_id (heap st r)) (queue (sess st)))"
  shows "\<exists>r. filter (\<lambda>q. unique_id (heap (fold_into_queue a uid st) q) = uid)
               (queue (sess (fold_into_queue a uid st))) = [r]
             \<and> status (heap (fold_into_queue a uid st) r) = status (heap st a)"
proof (cases "find (\<lambda>r. unique_id (heap st r) = uid) (queue (sess st))")
  case None
  then have "\<forall>q\<in>set (queue (sess st)). unique_id (heap st q) \<noteq> uid"
    by (auto simp: find_None_iff)
  then have "filter (\<lambda>q. unique_id (heap st q) = uid) (queue (sess st)) = []"
    by (simp add: filter_empty_conv)
  with None assms(1) show ?thesis
    by (simp add: fold_into_queue_def)
next
  case (Some r)
  then have r: "r \<in> set (queue (sess st))" "unique_id (heap st r) = uid"
    by (auto simp: find_Some_iff)
  from filter_distinct_single[OF assms(2) r(1)] r(2)
  have one: "filter (\<lambda>q. unique_id (heap st q) = uid) (queue (sess st)) = [r]" by simp
  let ?st' = "fold_into_queue a uid st"
  have st': "?st' = set_status r (status (heap st a)) st"
    using Some by (simp add: fold_into_queue_def)
  have ids: "unique_id (heap ?st' q) = unique_id (heap st q)" for q
    by (simp add: st' set_status_def)
  have "filter (\<lambda>q. unique_id (heap ?st' q) = uid) (queue (sess ?st')) = [r]"
    using one by (simp add: ids) (simp add: st' set_status_def)
  moreover have "status (heap ?st' r) = status (heap st a)"
    by (simp add: st' set_status_def)
  ultimately show ?thesis by blast
qed

lemma reconcile_retryable:
  assumes "active_download (sess st) = Some a" and "unique_id (heap st a) = uid"
    and "distinct (map (\<lambda>r. unique_id (heap st r)) (queue (sess st)))"
    and "status (heap st a) = ''parse_failed'' \<or> status (heap st a) = ''failed_last_attempt''"
  shows "\<exists>r. filter (\<lambda>q. unique_id (heap (reconcile_after_run uid st) q) = uid)
               (queue (sess (reconcile_after_run uid st))) = [r]
             \<and> status (heap (reconcile_after_run uid st) r) = status (heap st a)"
proof -
  have a_same: "status (heap (fold_into_queue a uid st) a) = status (heap st a)"
    by (simp add: fold_into_queue_def set_status_def split: option.splits)
  have "reconcile_after_run uid st = clear_active (fold_into_queue a uid st)"
    using assms(1,2,4) a_same by (auto simp add: reconcile_after_run_def Let_def)
  then show ?thesis
    using fold_into_queue_once[OF assms(2,3)] by (simp add: clear_active_def)
qed

lemma list_reconcile_retryable:
  assumes "active_download (sess st) = Some a"
    and "distinct (map (\<lambda>r. unique_id (heap st r)) (queue (sess st)))"
    and "status (heap st a) = ''parse_failed'' \<or> status (heap st a) = ''failed_last_attempt''"
  shows "active_download (sess (reconcile_for_list st)) = None \<and>
     (\<exists>r. filter (\<lambda>q. unique_id (heap (reconcile_for_list st) q) = unique_id (heap st a))
               (queue (sess (reconcile_for_list st))) = [r]
             \<and> status (heap (reconcile_for_list st) r) = status (heap st a))"
proof -
  have "reconcile_for_list st = save (clear_active (fold_into_queue a (unique_id (heap st a)) st))"
    using assms(1,3) by (auto simp add: reconcile_for_list_def)
  then show ?thesis
    using fold_into_queue_once[OF refl assms(2), of a]
    by (simp add: clear_active_def save_def add_event_def)
qed

lemma list_reconcile_idle:
  "active_download (sess st) = None \<or>
   (\<exists>a. active_download (sess st) = Some a \<and> status (heap st a) = ''awaiting_quality_selection'')
   \<Longrightarrow> reconcile_for_list st = st"
  by (auto simp: reconcile_for_list_def)


lemma run_shape:
  assumes run: "download_and_send_video cfg en d st = (out, st')"
    and act: "active_download (sess st) = Some a"
    and ids: "unique_id (heap st a) = unique_id (heap st d)"
    and keys: "initial_message_id (heap st d) = Some mid" "format_string (heap st d) = Some fmt"
  shows "\<exists>st3. st' = finally_block cfg en d st3 \<and> same_but_active a st st3"
proof -
  let ?st0 = "st\<lparr>file_path := None, thumbnail_path := None\<rparr>"
  let ?st1 = "save (set_status a ''downloading'' ?st0)"
  have f1: "same_but_active a st ?st1"
    by (simp add: same_but_active_def prim_defs)
  obtain o1 st2 where p: "probe_stage cfg en mid (url (heap st d)) fmt (title (heap st d)) d a ?st1 = (o1, st2)"
    by (cases "probe_stage cfg en mid (url (heap st d)) fmt (title (heap st d)) d a ?st1") 
  from probe_stage_frame[OF p] have f2: "same_but_active a ?st1 st2" .
  obtain o2 st3 where h: "(case o1 of Raise x \<Rightarrow> handle_exception en mid a x st2
                                            | Return b \<Rightarrow> (o1, st2)) = (o2, st3)"
    by (cases "(case o1 of Raise x \<Rightarrow> handle_exception en mid a x st2
                                            | Return b \<Rightarrow> (o1, st2))")
  have f3: "same_but_active a st2 st3"
    using h by (cases o1) (auto dest: handle_exception_frame simp: same_but_active_def)
  have "st' = finally_block cfg en d st3"
    using run act ids keys p h
    by (simp add: download_and_send_video_def superseded_def Let_def)
  moreover have "same_but_active a st st3"
    using f1 f2 f3 unfolding same_but_active_def by metis
  ultimately show ?thesis by blast
qed

text \<open>
  Claim C1. The active slot is one optional reference, so it never holds more than one
  item. For every run of the pipeline that passes its guard and reaches the \<open>finally\<close>
  block (the passed item is the active one and carries the two keys the function reads;
  the ids of the queue entries are pairwise different), the session it leaves has the
  slot cleared, or still holding the same item in status \<open>awaiting_quality_selection\<close>.
  When the item is left in \<open>parse_failed\<close> or \<open>failed_last_attempt\<close>, the slot is cleared
  and exactly one queue entry carries its id, with that status (the matching entry
  updated, or the item appended). The reconciliation of the list view then changes
  nothing. The second part is the list view's own reconciliation, on any session whose
  active item is in one of the two retryable states: it clears the slot and leaves exactly
  one queue entry with the item's id and status.
\<close>

theorem C1_reconciliation:
  "(download_and_send_video cfg en d st = (out, st') \<and>
    active_download (sess st) = Some a \<and>
    unique_id (heap st a) = unique_id (heap st d) \<and>
    initial_message_id (heap st d) \<noteq> None \<and> format_string (heap st d) \<noteq> None \<and>
    distinct (map (\<lambda>r. unique_id (heap st r)) (queue (sess st)))
    \<longrightarrow>
      (active_download (sess st') = None \<or>
       active_download (sess st') = Some a \<and>
       status (heap st' a) = ''awaiting_quality_selection'')
    \<and> (status (heap st' a) \<in> set [''parse_failed'', ''failed_last_attempt''] \<longrightarrow>
         active_download (sess st') = None \<and>
         (\<exists>r. filter (\<lambda>q. unique_id (heap st' q) = unique_id (heap st d)) (queue (sess st')) = [r]
              \<and> status (heap st' r) = status (heap st' a)))
    \<and> reconcile_for_list st' = st')
   \<and>
   (active_download (sess s) = Some b \<and>
    status (heap s b) \<in> set [''parse_failed'', ''failed_last_attempt''] \<and>
    distinct (map (\<lambda>r. unique_id (heap s r)) (queue (sess s)))
    \<longrightarrow>
      active_download (sess (reconcile_for_list s)) = None \<and>
      (\<exists>r. filter (\<lambda>q. unique_id (heap (reconcile_for_list s) q) = unique_id (heap s b))
               (queue (sess (reconcile_for_list s))) = [r]
           \<and> status (heap (reconcile_for_list s) r) = status (heap s b)))"
proof (intro conjI impI)
  assume asm: "active_download (sess s) = Some b \<and>
    status (heap s b) \<in> set [''parse_failed'', ''failed_last_attempt''] \<and>
    distinct (map (\<lambda>r. unique_id (heap s r)) (queue (sess s)))"
  then have "status (heap s b) = ''parse_failed'' \<or> status (heap s b) = ''failed_last_attempt''"
    by simp
  with asm list_reconcile_retryable[of s b]
  show "active_download (sess (reconcile_for_list s)) = None"
    and "\<exists>r. filter (\<lambda>q. unique_id (heap (reconcile_for_list s) q) = unique_id (heap s b))
               (queue (sess (reconcile_for_list s))) = [r]
           \<and> status (heap (reconcile_for_list s) r) = status (heap s b)"
    by blast+
next
  assume asm: "download_and_send_video cfg en d st = (out, st') \<and>
    active_download (sess st) = Some a \<and>
    unique_id (heap st a) = unique_id (heap st d) \<and>
    initial_message_id (heap st d) \<noteq> None \<and> format_string (heap st d) \<noteq> None \<and>
    distinct (map (\<lambda>r. unique_id (heap st r)) (queue (sess st)))"
  then obtain mid fmt where keys: "initial_message_id (heap st d) = Some mid"
      "format_string (heap st d) = Some fmt" by auto
  from asm run_shape[of cfg en d st out st' a mid fmt] keys
  obtain st3 where st3: "st' = finally_block cfg en d st3" "same_but_active a st st3"
    by blast
  let ?uid = "unique_id (heap st d)"
  let ?r = "reconcile_after_run ?uid st3"
  have uid3: "unique_id (heap st3 d) = ?uid" "unique_id (heap st3 a) = ?uid"
    using st3(2) asm by (simp_all add: same_but_active_def)
  have act3: "active_download (sess st3) = Some a"
    using st3(2) asm by (simp add: same_but_active_def)
  have dist3: "distinct (map (\<lambda>r. unique_id (heap st3 r)) (queue (sess st3)))"
    using st3(2) asm by (simp add: same_but_active_def)
  have fin: "sess st' = sess ?r" "heap st' = heap ?r"
    using finally_block_eq[of cfg en d st3] st3(1) uid3 by simp_all
  from reconcile_slot[OF act3 uid3(2)]
  have slot: "status (heap ?r a) = status (heap st3 a)"
    "status (heap st3 a) = ''awaiting_quality_selection'' \<Longrightarrow> active_download (sess ?r) = Some a"
    "status (heap st3 a) \<noteq> ''awaiting_quality_selection'' \<Longrightarrow> active_download (sess ?r) = None"
    by (simp_all split: if_splits)
  show A: "active_download (sess st') = None \<or>
       active_download (sess st') = Some a \<and>
       status (heap st' a) = ''awaiting_quality_selection''"
    using slot fin by (cases "status (heap st3 a) = ''awaiting_quality_selection''") simp_all
  then show "reconcile_for_list st' = st'"
    by (intro list_reconcile_idle) blast
  assume retry: "status (heap st' a) \<in> set [''parse_failed'', ''failed_last_attempt'']"
  then have r3: "status (heap st3 a) = ''parse_failed'' \<or> status (heap st3 a) = ''failed_last_attempt''"
    using slot(1) fin by simp
  then show "active_download (sess st') = None"
    using slot(3) fin by auto
  from reconcile_retryable[OF act3 uid3(2) dist3 r3] slot(1) fin
  show "\<exists>r. filter (\<lambda>q. unique_id (heap st' q) = unique_id (heap st d)) (queue (sess st')) = [r]
              \<and> status (heap st' r) = status (heap st' a)"
    by simp
qed

lemma handle_exception_eq:
  "handle_exception en mid a x st =
     (if edit_accepted en (edits_before st) then Return False else Raise TelegramError,
      st\<lparr>heap := (heap st)(a := (heap st a)\<lparr>status := ''failed_last_attempt''\<rparr>),
         trace := trace st @ [Save, EditMessage mid
            (if x = DownloadError then MsgProcessingFailed else MsgUnknownError) NoMarkup
            (edit_accepted en (edits_before st))]\<rparr>)"
  by (simp add: handle_exception_def prim_defs Let_def)

lemma probe_stage_download_fails:
  assumes "probe en = ProbeInfo t fs fsa"
    and "\<not> action_needed (decide_on_estimate (py_or fs fsa) fmt)"
    and "edit_accepted en (edits_before st)"
    and "download en = Some x"
  shows "probe_stage cfg en mid u fmt t0 d a st =
     (if edit_accepted en (Suc (edits_before st)) then Return False else Raise TelegramError,
      st\<lparr>heap := (heap st)(a := (heap st a)\<lparr>title := (case t of None \<Rightarrow> t0 | Some t' \<Rightarrow> t'),
                                              status := ''failed_last_attempt''\<rparr>),
         trace := trace st @
           [ExtractInfo u fmt, Save,
            EditMessage mid (message_to_edit (decide_on_estimate (py_or fs fsa) fmt)) NoMarkup True,
            Download u fmt DOWNLOAD_TIMEOUT_SECONDS, Save,
            EditMessage mid (download_error_text x) NoMarkup
              (edit_accepted en (Suc (edits_before st)))]\<rparr>)"
  using assms
  by (simp add: probe_stage_def download_stage_def prim_defs Let_def)

lemma probe_stage_to_after_download:
  assumes "probe en = ProbeInfo t fs fsa"
    and "\<not> action_needed (decide_on_estimate (py_or fs fsa) fmt)"
    and "edit_accepted en (edits_before st)"
    and "download en = None"
    and "info_after_download en = Inr path"
  shows "probe_stage cfg en mid u fmt t0 d a st =
     after_download cfg en mid d a path
      (st\<lparr>heap := (heap st)(a := (heap st a)\<lparr>title := (case t of None \<Rightarrow> t0 | Some t' \<Rightarrow> t')\<rparr>),
         trace := trace st @
           [ExtractInfo u fmt, Save,
            EditMessage mid (message_to_edit (decide_on_estimate (py_or fs fsa) fmt)) NoMarkup True,
            Download u fmt DOWNLOAD_TIMEOUT_SECONDS, ExtractInfoAfterDownload],
         file_path := Some path\<rparr>)"
  using assms
  by (simp add: probe_stage_def download_stage_def prim_defs Let_def)

lemma after_download_too_large:
  assumes "file_exists en" and "actual_file_size en > TELEGRAM_MAX_FILE_SIZE_BYTES"
  shows "after_download cfg en mid d a path st =
     (if edit_accepted en (edits_before st) then Return False else Raise TelegramError,
      st\<lparr>heap := (heap st)(a := (heap st a)\<lparr>status := ''failed''\<rparr>),
         trace := trace st @ [Save, EditMessage mid MsgActualExceedsLimit NoMarkup
                                 (edit_accepted en (edits_before st))]\<rparr>)"
  using assms by (simp add: after_download_def prim_defs Let_def)

lemma after_download_over_50MB:
  assumes "file_exists en" and "\<not> actual_file_size en > TELEGRAM_MAX_FILE_SIZE_BYTES"
    and "actual_file_size en > TELEGRAM_VIDEO_FILE_SIZE_LIMIT_BYTES"
  shows "after_download cfg en mid d a path st =
     (if edit_accepted en (edits_before st) then Return False else Raise TelegramError,
      st\<lparr>heap := (heap st)(a := (heap st a)\<lparr>status := ''awaiting_quality_selection''\<rparr>),
         trace := trace st @ [Save, EditMessage mid MsgActualOver50MB QualityKeyboard
                                 (edit_accepted en (edits_before st))]\<rparr>)"
  using assms by (simp add: after_download_def prim_defs Let_def)




lemma deliver_succeeds:
  "user_send_success en \<Longrightarrow>
   deliver cfg en mid a path st =
     (Return True,
      st\<lparr>heap := (heap st)(a := (heap st a)\<lparr>status := ''completed''\<rparr>),
         trace := trace st @ [SendToUser path True, DeleteMessage mid]
                  @ (case TELEGRAM_CHANNEL_ID cfg of None \<Rightarrow> []
                     | Some c \<Rightarrow> if c = [] then [] else [SendToChannel c])
                  @ [Save]\<rparr>)"
  by (simp add: deliver_def prim_defs Let_def split: option.splits)


lemma run_unfold:
  assumes "active_download (sess st) = Some a"
    and "unique_id (heap st a) = unique_id (heap st d)"
    and "initial_message_id (heap st d) = Some mid" and "format_string (heap st d) = Some fmt"
  shows "download_and_send_video cfg en d st =
     (case probe_stage cfg en mid (url (heap st d)) fmt (title (heap st d)) d a
             (save (set_status a ''downloading''
                (st\<lparr>file_path := None, thumbnail_path := None\<rparr>))) of
        (o1, st2) \<Rightarrow>
          (case (case o1 of Raise x \<Rightarrow> handle_exception en mid a x st2
                          | Return b \<Rightarrow> (o1, st2)) of
             (o2, st3) \<Rightarrow> (o2, finally_block cfg en d st3)))"
  using assms
  by (simp add: download_and_send_video_def superseded_def Let_def)

lemma reconcile_trace:
  "trace (reconcile_after_run uid st) = trace st
   \<and> file_path (reconcile_after_run uid st) = file_path st
   \<and> thumbnail_path (reconcile_after_run uid st) = thumbnail_path st"
  by (simp add: reconcile_after_run_def fold_into_queue_def prim_defs Let_def
      split: option.splits)

lemma finally_block_trace:
  "trace (finally_block cfg en d st) =
     trace st
     @ (case file_path st of
          None \<Rightarrow> []
        | Some p \<Rightarrow> if p \<noteq> [] \<and> file_exists en \<and> SHOULD_DELETE_FILE cfg
                    then [RemoveFile p] else [])
     @ (case thumbnail_path st of
          None \<Rightarrow> []
        | Some p \<Rightarrow> if p \<noteq> [] then [RemoveThumbnail p] else [])
     @ [Save]"
proof -
  have t: "trace (add_event e s) = trace s @ [e]"
    "thumbnail_path (add_event e s) = thumbnail_path s" for e s
    by (simp_all add: add_event_def)
  show ?thesis
    by (cases "file_path st"; cases "thumbnail_path st")
      (simp_all add: finally_block_def Let_def save_def t reconcile_trace)
qed

lemma reconcile_terminal:
  assumes "active_download (sess st) = Some a" and "unique_id (heap st a) = uid"
    and "status (heap st a) \<in> set [''completed'', ''cancelled'', ''failed'', ''failed_sending'',
           ''failed_internal'']"
  shows "reconcile_after_run uid st =
     st\<lparr>sess := (sess st)\<lparr>active_download := None,
            queue := filter (\<lambda>r. unique_id (heap st r) \<noteq> uid) (queue (sess st))\<rparr>\<rparr>"
  using assms
  by (auto simp add: reconcile_after_run_def prim_defs Let_def)

lemma reconcile_awaiting:
  assumes "active_download (sess st) = Some a" and "unique_id (heap st a) = uid"
    and "status (heap st a) = ''awaiting_quality_selection''"
  shows "reconcile_after_run uid st = st"
  using assms
  by (auto simp add: reconcile_after_run_def prim_defs Let_def)

lemma run_download_fails:
  assumes act: "active_download (sess st) = Some a"
    and ids: "unique_id (heap st a) = unique_id (heap st d)"
    and keys: "initial_message_id (heap st d) = Some mid" "format_string (heap st d) = Some fmt"
    and probe: "probe en = ProbeInfo t fs fsa"
    and noact: "\<not> action_needed (decide_on_estimate (py_or fs fsa) fmt)"
    and ok0: "edit_accepted en (edits_before st)"
    and dl: "download en = Some x"
  shows "\<exists>st3. download_and_send_video cfg en d st =
      (if edit_accepted en (Suc (edits_before st)) \<or> edit_accepted en (Suc (Suc (edits_before st)))
       then Return False else Raise TelegramError,
       finally_block cfg en d st3)
    \<and> same_but_active a st st3
    \<and> status (heap st3 a) = ''failed_last_attempt''
    \<and> file_path st3 = None \<and> thumbnail_path st3 = None
    \<and> trace st3 = trace st @
         [Save, ExtractInfo (url (heap st d)) fmt, Save,
          EditMessage mid (message_to_edit (decide_on_estimate (py_or fs fsa) fmt)) NoMarkup True,
          Download (url (heap st d)) fmt DOWNLOAD_TIMEOUT_SECONDS, Save,
          EditMessage mid (download_error_text x) NoMarkup
            (edit_accepted en (Suc (edits_before st)))]
         @ (if edit_accepted en (Suc (edits_before st)) then []
            else [Save, EditMessage mid MsgUnknownError NoMarkup
                    (edit_accepted en (Suc (Suc (edits_before st))))])"
proof -
  let ?st1 = "save (set_status a ''downloading'' (st\<lparr>file_path := None, thumbnail_path := None\<rparr>))"
  have e1: "edits_before ?st1 = edits_before st"
    by (simp add: prim_defs)
  have ok0': "edit_accepted en (edits_before ?st1)"
    using ok0 e1 by simp
  note ps = probe_stage_download_fails[OF probe noact ok0' dl,
      of cfg mid "url (heap st d)" "title (heap st d)" d a]
  let ?ok1 = "edit_accepted en (Suc (edits_before st))"
  let ?ok2 = "edit_accepted en (Suc (Suc (edits_before st)))"
  let ?st2 = "snd (probe_stage cfg en mid (url (heap st d)) fmt (title (heap st d)) d a ?st1)"
  let ?st3 = "if ?ok1 then ?st2 else snd (handle_exception en mid a TelegramError ?st2)"
  have run: "download_and_send_video cfg en d st =
      (if ?ok1 \<or> ?ok2 then Return False else Raise TelegramError, finally_block cfg en d ?st3)"
  proof (cases ?ok1)
    case True
    then show ?thesis
      by (simp add: run_unfold[OF act ids keys] ps e1)
  next
    case False
    from False show ?thesis
      by (simp add: run_unfold[OF act ids keys] ps handle_exception_eq edits_before_def
          e1[unfolded edits_before_def])
  qed
  have facts: "same_but_active a st ?st3
    \<and> status (heap ?st3 a) = ''failed_last_attempt''
    \<and> file_path ?st3 = None \<and> thumbnail_path ?st3 = None
    \<and> trace ?st3 = trace st @
         [Save, ExtractInfo (url (heap st d)) fmt, Save,
          EditMessage mid (message_to_edit (decide_on_estimate (py_or fs fsa) fmt)) NoMarkup True,
          Download (url (heap st d)) fmt DOWNLOAD_TIMEOUT_SECONDS, Save,
          EditMessage mid (download_error_text x) NoMarkup ?ok1]
         @ (if ?ok1 then []
            else [Save, EditMessage mid MsgUnknownError NoMarkup ?ok2])"
    by (simp add: ps handle_exception_eq edits_before_def e1[unfolded edits_before_def])
      (simp add: same_but_active_def prim_defs)
  from run facts show ?thesis by blast
qed


lemma find_of_filter_single: "filter P xs = [r] \<Longrightarrow> find P xs = Some r"
proof (induction xs)
  case Nil
  then show ?case by simp
next
  case (Cons x xs)
  then show ?case by (cases "P x") auto
qed

lemma finally_retryable:
  assumes act: "active_download (sess st3) = Some a"
    and ids: "unique_id (heap st3 a) = unique_id (heap st3 d)"
    and dist: "distinct (map (\<lambda>r. unique_id (heap st3 r)) (queue (sess st3)))"
    and stat: "status (heap st3 a) = ''parse_failed'' \<or> status (heap st3 a) = ''failed_last_attempt''"
  shows "status (heap (finally_block cfg en d st3) a) = status (heap st3 a)
    \<and> active_download (sess (finally_block cfg en d st3)) = None
    \<and> (\<exists>r. filter (\<lambda>q. unique_id (heap (finally_block cfg en d st3) q) = unique_id (heap st3 d))
               (queue (sess (finally_block cfg en d st3))) = [r]
           \<and> status (heap (finally_block cfg en d st3) r) = status (heap st3 a))"
proof -
  let ?r = "reconcile_after_run (unique_id (heap st3 d)) st3"
  have fin: "sess (finally_block cfg en d st3) = sess ?r" "heap (finally_block cfg en d st3) = heap ?r"
    using finally_block_eq[of cfg en d st3] by simp_all
  from stat have na: "status (heap st3 a) \<noteq> ''awaiting_quality_selection''" by auto
  from reconcile_slot[OF act ids] na
  have "status (heap ?r a) = status (heap st3 a)" "active_download (sess ?r) = None"
    by simp_all
  with reconcile_retryable[OF act ids dist stat] fin show ?thesis by simp
qed

lemma download_fails_final:
  assumes run: "download_and_send_video cfg en d st = (out, st')"
    and act: "active_download (sess st) = Some a"
    and ids: "unique_id (heap st a) = unique_id (heap st d)"
    and keys: "initial_message_id (heap st d) = Some mid" "format_string (heap st d) = Some fmt"
    and dist: "distinct (map (\<lambda>r. unique_id (heap st r)) (queue (sess st)))"
    and probe: "probe en = ProbeInfo t fs fsa"
    and noact: "\<not> action_needed (decide_on_estimate (py_or fs fsa) fmt)"
    and ok0: "edit_accepted en (edits_before st)"
    and dl: "download en = Some x"
  shows "out = (if edit_accepted en (Suc (edits_before st))
                   \<or> edit_accepted en (Suc (Suc (edits_before st)))
                then Return False else Raise TelegramError)
    \<and> trace st' = trace st @
         [Save, ExtractInfo (url (heap st d)) fmt, Save,
          EditMessage mid (message_to_edit (decide_on_estimate (py_or fs fsa) fmt)) NoMarkup True,
          Download (url (heap st d)) fmt DOWNLOAD_TIMEOUT_SECONDS, Save,
          EditMessage mid (download_error_text x) NoMarkup
            (edit_accepted en (Suc (edits_before st)))]
         @ (if edit_accepted en (Suc (edits_before st)) then []
            else [Save, EditMessage mid MsgUnknownError NoMarkup
                    (edit_accepted en (Suc (Suc (edits_before st))))])
         @ [Save]
    \<and> status (heap st' a) = ''failed_last_attempt''
    \<and> active_download (sess st') = None
    \<and> (\<exists>r. filter (\<lambda>q. unique_id (heap st' q) = unique_id (heap st d)) (queue (sess st')) = [r]
           \<and> status (heap st' r) = ''failed_last_attempt'')"
proof -
  from run_download_fails[OF act ids keys probe noact ok0 dl, of cfg]
  obtain st3 where r: "download_and_send_video cfg en d st =
      (if edit_accepted en (Suc (edits_before st)) \<or> edit_accepted en (Suc (Suc (edits_before st)))
       then Return False else Raise TelegramError,
       finally_block cfg en d st3)"
    and fr: "same_but_active a st st3"
    and st: "status (heap st3 a) = ''failed_last_attempt''"
    and loc: "file_path st3 = None" "thumbnail_path st3 = None"
    and tr: "trace st3 = trace st @
         [Save, ExtractInfo (url (heap st d)) fmt, Save,
          EditMessage mid (message_to_edit (decide_on_estimate (py_or fs fsa) fmt)) NoMarkup True,
          Download (url (heap st d)) fmt DOWNLOAD_TIMEOUT_SECONDS, Save,
          EditMessage mid (download_error_text x) NoMarkup
            (edit_accepted en (Suc (edits_before st)))]
         @ (if edit_accepted en (Suc (edits_before st)) then []
            else [Save, EditMessage mid MsgUnknownError NoMarkup
                    (edit_accepted en (Suc (Suc (edits_before st))))])"
    by blast
  from r run have out: "out = (if edit_accepted en (Suc (edits_before st))
                   \<or> edit_accepted en (Suc (Suc (edits_before st)))
                then Return False else Raise TelegramError)"
    and st': "st' = finally_block cfg en d st3" by simp_all
  have act3: "active_download (sess st3) = Some a"
    and ids3: "unique_id (heap st3 a) = unique_id (heap st3 d)"
    and uid3: "unique_id (heap st3 d) = unique_id (heap st d)"
    and dist3: "distinct (map (\<lambda>r. unique_id (heap st3 r)) (queue (sess st3)))"
    using fr act ids dist by (simp_all add: same_but_active_def)
  from finally_retryable[OF act3 ids3 dist3, of cfg en] st
  have fin: "status (heap st' a) = ''failed_last_attempt''"
    "active_download (sess st') = None"
    "\<exists>r. filter (\<lambda>q. unique_id (heap st' q) = unique_id (heap st d)) (queue (sess st')) = [r]
           \<and> status (heap st' r) = ''failed_last_attempt''"
    by (simp_all add: st' uid3)
  have "trace st' = trace st3 @ [Save]"
    by (simp add: st' finally_block_trace loc)
  with out fin tr show ?thesis by simp
qed

lemma promote_facts:
  "active_download (sess (promote_to_active i r m st)) = Some r
   \<and> initial_message_id (heap (promote_to_active i r m st) r) = Some m
   \<and> format_string (heap (promote_to_active i r m st) r) = Some ''best''
   \<and> \<not> superseded r (promote_to_active i r m st)"
  by (simp add: promote_to_active_def superseded_def set_initial_message_id_def
      set_format_string_def prim_defs Let_def split: option.splits)

text \<open>
  Claim C5. The download is started with the fixed bound of 300 seconds. For every run
  that reaches the download (the guard is passed, the probe returns, its decision asks
  for no selection and the gateway accepts the first edit of the status message) and in
  which the download times out or raises, the calls of the run are exactly: the probe,
  the edit that announces the download, the download with the bound of 300 seconds, the
  edit with the text of the failure (and, when the gateway refuses that edit, one more
  edit from the outer handler), and the saves; nothing is sent to the user. The item ends
  in \<open>failed_last_attempt\<close>, the active slot is cleared, and exactly one queue entry
  carries its id, in that status. A later click on its start button then passes all
  tests of the click handler, makes that entry the active download with the format
  \<open>best\<close>, and the guard of the pipeline lets it through.
\<close>

theorem C5_download_failure:
  assumes run: "download_and_send_video cfg en d st = (out, st')"
    and act: "active_download (sess st) = Some a"
    and ids: "unique_id (heap st a) = unique_id (heap st d)"
    and uid: "unique_id (heap st d) = Some uid"
    and keys: "initial_message_id (heap st d) = Some mid" "format_string (heap st d) = Some fmt"
    and dist: "distinct (map (\<lambda>r. unique_id (heap st r)) (queue (sess st)))"
    and probe: "probe en = ProbeInfo t fs fsa"
    and noact: "\<not> action_needed (decide_on_estimate (py_or fs fsa) fmt)"
    and ok0: "edit_accepted en (edits_before st)"
    and dl: "download en = Some x"
  shows "DOWNLOAD_TIMEOUT_SECONDS = 300
    \<and> out = (if edit_accepted en (Suc (edits_before st))
                   \<or> edit_accepted en (Suc (Suc (edits_before st)))
                then Return False else Raise TelegramError)
    \<and> trace st' = trace st @
         [Save, ExtractInfo (url (heap st d)) fmt, Save,
          EditMessage mid (message_to_edit (decide_on_estimate (py_or fs fsa) fmt)) NoMarkup True,
          Download (url (heap st d)) fmt 300, Save,
          EditMessage mid (download_error_text x) NoMarkup
            (edit_accepted en (Suc (edits_before st)))]
         @ (if edit_accepted en (Suc (edits_before st)) then []
            else [Save, EditMessage mid MsgUnknownError NoMarkup
                    (edit_accepted en (Suc (Suc (edits_before st))))])
         @ [Save]
    \<and> status (heap st' a) = ''failed_last_attempt''
    \<and> active_download (sess st') = None
    \<and> (\<exists>r. filter (\<lambda>q. unique_id (heap st' q) = Some uid) (queue (sess st')) = [r]
           \<and> status (heap st' r) = ''failed_last_attempt''
           \<and> start_download_decision uid st' = Start r
           \<and> active_download (sess (promote_to_active uid r m st')) = Some r
           \<and> format_string (heap (promote_to_active uid r m st') r) = Some ''best''
           \<and> initial_message_id (heap (promote_to_active uid r m st') r) = Some m
           \<and> \<not> superseded r (promote_to_active uid r m st'))"
proof -
  note f = download_fails_final[OF run act ids keys dist probe noact ok0 dl]
  from f obtain r where r: "filter (\<lambda>q. unique_id (heap st' q) = Some uid) (queue (sess st')) = [r]"
    "status (heap st' r) = ''failed_last_attempt''"
    unfolding uid by blast
  from f have none: "active_download (sess st') = None" by simp
  have "start_download_decision uid st' = Start r"
    using none find_of_filter_single[OF r(1)] r(2)
    by (simp add: start_download_decision_def)
  with r promote_facts[of uid r m st'] have
    "\<exists>r. filter (\<lambda>q. unique_id (heap st' q) = Some uid) (queue (sess st')) = [r]
           \<and> status (heap st' r) = ''failed_last_attempt''
           \<and> start_download_decision uid st' = Start r
           \<and> active_download (sess (promote_to_active uid r m st')) = Some r
           \<and> format_string (heap (promote_to_active uid r m st') r) = Some ''best''
           \<and> initial_message_id (heap (promote_to_active uid r m st') r) = Some m
           \<and> \<not> superseded r (promote_to_active uid r m st')"
    by blast
  with f show ?thesis
    by (simp add: DOWNLOAD_TIMEOUT_SECONDS_def)
qed

lemmas sample_defs = sample_state_def sample_env_def sample_config_def sample_item_def
  blank_item_def

lemma sample_probe_decision:
  "\<not> action_needed (decide_on_estimate (py_or (Some (30 * 1024 * 1024)) None) ''best'')"
  by (simp add: decide_on_estimate_def py_or_def TELEGRAM_MAX_FILE_SIZE_BYTES_def
      TELEGRAM_VIDEO_FILE_SIZE_LIMIT_BYTES_def)

theorem C5_download_failure_witness:
  "status (heap (snd (download_and_send_video sample_config
       (sample_env\<lparr>download := Some TimeoutError\<rparr>) 0 sample_state)) 0) = ''failed_last_attempt''
   \<and> active_download (sess (snd (download_and_send_video sample_config
       (sample_env\<lparr>download := Some TimeoutError\<rparr>) 0 sample_state))) = None
   \<and> fst (download_and_send_video sample_config
       (sample_env\<lparr>download := Some TimeoutError\<rparr>) 0 sample_state) = Return False
   \<and> trace (snd (download_and_send_video sample_config
       (sample_env\<lparr>download := Some TimeoutError\<rparr>) 0 sample_state)) =
       [Save, ExtractInfo ''https://example.org/a'' ''best'', Save,
        EditMessage 7 MsgStartDownload NoMarkup True,
        Download ''https://example.org/a'' ''best'' 300, Save,
        EditMessage 7 MsgDownloadTimeout NoMarkup True, Save]"
proof -
  let ?en = "sample_env\<lparr>download := Some TimeoutError\<rparr>"
  let ?run = "download_and_send_video sample_config ?en 0 sample_state"
  have h: "?run = (fst ?run, snd ?run)"
    "active_download (sess sample_state) = Some 0"
    "unique_id (heap sample_state 0) = unique_id (heap sample_state 0)"
    "unique_id (heap sample_state 0) = Some ''id-a''"
    "initial_message_id (heap sample_state 0) = Some 7"
    "format_string (heap sample_state 0) = Some ''best''"
    "distinct (map (\<lambda>r. unique_id (heap sample_state r)) (queue (sess sample_state)))"
    "probe ?en = ProbeInfo (Some ''clip'') (Some (30 * 1024 * 1024)) None"
    "edit_accepted ?en (edits_before sample_state)"
    "download ?en = Some TimeoutError"
    by (simp_all add: sample_defs)
  from C5_download_failure[OF h(1-8) sample_probe_decision h(9,10), of 0]
  show ?thesis
    by (simp add: sample_defs decide_on_estimate_def py_or_def
        TELEGRAM_MAX_FILE_SIZE_BYTES_def TELEGRAM_VIDEO_FILE_SIZE_LIMIT_BYTES_def)
qed

theorem C1_reconciliation_witness:
  "active_download (sess sample_state) = Some 0
   \<and> distinct (map (\<lambda>r. unique_id (heap sample_state r)) (queue (sess sample_state)))
   \<and> status (heap (snd (download_and_send_video sample_config
         (sample_env\<lparr>download := Some TimeoutError\<rparr>) 0 sample_state)) 0) = ''failed_last_attempt''
   \<and> active_download (sess (snd (download_and_send_video sample_config
         (sample_env\<lparr>download := Some TimeoutError\<rparr>) 0 sample_state))) = None
   \<and> (\<exists>r. filter (\<lambda>q. unique_id (heap (snd (download_and_send_video sample_config
         (sample_env\<lparr>download := Some TimeoutError\<rparr>) 0 sample_state)) q) = Some ''id-a'')
        (queue (sess (snd (download_and_send_video sample_config
         (sample_env\<lparr>download := Some TimeoutError\<rparr>) 0 sample_state)))) = [r])
   \<and> status (heap (set_status 0 ''parse_failed'' sample_state) 0) = ''parse_failed''
   \<and> active_download (sess (reconcile_for_list (set_status 0 ''parse_failed'' sample_state))) = None"
proof -
  let ?en = "sample_env\<lparr>download := Some TimeoutError\<rparr>"
  let ?run = "download_and_send_video sample_config ?en 0 sample_state"
  let ?s = "set_status 0 ''parse_failed'' sample_state"
  have h: "?run = (fst ?run, snd ?run)"
    "active_download (sess sample_state) = Some 0"
    "unique_id (heap sample_state 0) = unique_id (heap sample_state 0)"
    "initial_message_id (heap sample_state 0) = Some 7"
    "format_string (heap sample_state 0) = Some ''best''"
    "distinct (map (\<lambda>r. unique_id (heap sample_state r)) (queue (sess sample_state)))"
    "probe ?en = ProbeInfo (Some ''clip'') (Some (30 * 1024 * 1024)) None"
    "edit_accepted ?en (edits_before sample_state)"
    "download ?en = Some TimeoutError"
    by (simp_all add: sample_defs)
  have fla: "status (heap (snd ?run) 0) = ''failed_last_attempt''"
    using download_fails_final[OF h(1-7) sample_probe_decision h(8,9)] by simp
  have s: "active_download (sess ?s) = Some 0" "status (heap ?s 0) = ''parse_failed''"
    "distinct (map (\<lambda>r. unique_id (heap ?s r)) (queue (sess ?s)))"
    "unique_id (heap sample_state 0) = Some ''id-a''"
    by (simp_all add: sample_defs set_status_def)
  from C1_reconciliation[of sample_config ?en 0 sample_state "fst ?run" "snd ?run" 0 ?s 0]
    h fla s
  show ?thesis by simp blast
qed

lemma state_at_size_check_simps:
  "sess (state_at_size_check a mid u fmt t m path st) = sess st"
  "next_ref (state_at_size_check a mid u fmt t m path st) = next_ref st"
  "heap (state_at_size_check a mid u fmt t m path st) =
     (heap st)(a := (heap st a)\<lparr>status := ''downloading'', title := t\<rparr>)"
  "trace (state_at_size_check a mid u fmt t m path st) = trace st @
          [Save, ExtractInfo u fmt, Save, EditMessage mid m NoMarkup True,
           Download u fmt DOWNLOAD_TIMEOUT_SECONDS, ExtractInfoAfterDownload]"
  "file_path (state_at_size_check a mid u fmt t m path st) = Some path"
  "thumbnail_path (state_at_size_check a mid u fmt t m path st) = None"
  "edits_before (state_at_size_check a mid u fmt t m path st) = Suc (edits_before st)"
  by (simp_all add: state_at_size_check_def edits_before_def)

lemma run_to_size_check:
  assumes act: "active_download (sess st) = Some a"
    and ids: "unique_id (heap st a) = unique_id (heap st d)"
    and keys: "initial_message_id (heap st d) = Some mid" "format_string (heap st d) = Some fmt"
    and probe: "probe en = ProbeInfo t fs fsa"
    and noact: "\<not> action_needed (decide_on_estimate (py_or fs fsa) fmt)"
    and ok0: "edit_accepted en (edits_before st)"
    and dl: "download en = None"
    and info: "info_after_download en = Inr path"
  shows "download_and_send_video cfg en d st =
     (case after_download cfg en mid d a path
             (state_at_size_check a mid (url (heap st d)) fmt
                (case t of None \<Rightarrow> title (heap st d) | Some t' \<Rightarrow> t')
                (message_to_edit (decide_on_estimate (py_or fs fsa) fmt)) path st) of
        (o1, st2) \<Rightarrow>
          (case (case o1 of Raise x \<Rightarrow> handle_exception en mid a x st2
                          | Return b \<Rightarrow> (o1, st2)) of
             (o2, st3) \<Rightarrow> (o2, finally_block cfg en d st3)))"
proof -
  let ?st1 = "save (set_status a ''downloading'' (st\<lparr>file_path := None, thumbnail_path := None\<rparr>))"
  have ok0': "edit_accepted en (edits_before ?st1)"
    using ok0 by (simp add: prim_defs)
  have eq: "?st1\<lparr>heap := (heap ?st1)(a := (heap ?st1 a)
                \<lparr>title := (case t of None \<Rightarrow> title (heap st d) | Some t' \<Rightarrow> t')\<rparr>),
         trace := trace ?st1 @
           [ExtractInfo (url (heap st d)) fmt, Save,
            EditMessage mid (message_to_edit (decide_on_estimate (py_or fs fsa) fmt)) NoMarkup True,
            Download (url (heap st d)) fmt DOWNLOAD_TIMEOUT_SECONDS, ExtractInfoAfterDownload],
         file_path := Some path\<rparr>
     = state_at_size_check a mid (url (heap st d)) fmt
                (case t of None \<Rightarrow> title (heap st d) | Some t' \<Rightarrow> t')
                (message_to_edit (decide_on_estimate (py_or fs fsa) fmt)) path st"
    by (rule state.equality) (simp_all add: state_at_size_check_def prim_defs)
  show ?thesis
    by (simp only: run_unfold[OF act ids keys]
        probe_stage_to_after_download[OF probe noact ok0' dl info] eq)
qed


lemma finally_terminal:
  assumes "active_download (sess st3) = Some a"
    and "unique_id (heap st3 a) = unique_id (heap st3 d)"
    and "status (heap st3 a) \<in> set [''completed'', ''cancelled'', ''failed'', ''failed_sending'',
           ''failed_internal'']"
  shows "sess (finally_block cfg en d st3) =
      (sess st3)\<lparr>active_download := None,
         queue := filter (\<lambda>r. unique_id (heap st3 r) \<noteq> unique_id (heap st3 d)) (queue (sess st3))\<rparr>
    \<and> heap (finally_block cfg en d st3) = heap st3"
  using finally_block_eq[of cfg en d st3] reconcile_terminal[OF assms] by simp

lemma finally_awaiting:
  assumes "active_download (sess st3) = Some a"
    and "unique_id (heap st3 a) = unique_id (heap st3 d)"
    and "status (heap st3 a) = ''awaiting_quality_selection''"
  shows "sess (finally_block cfg en d st3) = sess st3
    \<and> heap (finally_block cfg en d st3) = heap st3"
  using finally_block_eq[of cfg en d st3] reconcile_awaiting[OF assms] by simp

lemma too_large_final:
  assumes run: "download_and_send_video cfg en d st = (out, st')"
    and act: "active_download (sess st) = Some a"
    and ids: "unique_id (heap st a) = unique_id (heap st d)"
    and keys: "initial_message_id (heap st d) = Some mid" "format_string (heap st d) = Some fmt"
    and probe: "probe en = ProbeInfo t fs fsa"
    and noact: "\<not> action_needed (decide_on_estimate (py_or fs fsa) fmt)"
    and ok0: "edit_accepted en (edits_before st)"
    and dl: "download en = None"
    and info: "info_after_download en = Inr path"
    and ex: "file_exists en"
    and big: "actual_file_size en > TELEGRAM_MAX_FILE_SIZE_BYTES"
    and ok1: "edit_accepted en (Suc (edits_before st))"
  shows "out = Return False
    \<and> trace st' = trace st @
         [Save, ExtractInfo (url (heap st d)) fmt, Save,
          EditMessage mid (message_to_edit (decide_on_estimate (py_or fs fsa) fmt)) NoMarkup True,
          Download (url (heap st d)) fmt DOWNLOAD_TIMEOUT_SECONDS, ExtractInfoAfterDownload,
          Save, EditMessage mid MsgActualExceedsLimit NoMarkup True]
         @ (if path \<noteq> [] \<and> SHOULD_DELETE_FILE cfg then [RemoveFile path] else [])
         @ [Save]
    \<and> status (heap st' a) = ''failed''
    \<and> active_download (sess st') = None
    \<and> queue (sess st') =
         filter (\<lambda>r. unique_id (heap st r) \<noteq> unique_id (heap st d)) (queue (sess st))"
proof -
  let ?A = "state_at_size_check a mid (url (heap st d)) fmt
                (case t of None \<Rightarrow> title (heap st d) | Some t' \<Rightarrow> t')
                (message_to_edit (decide_on_estimate (py_or fs fsa) fmt)) path st"
  define st3 where "st3 = ?A\<lparr>heap := (heap ?A)(a := (heap ?A a)\<lparr>status := ''failed''\<rparr>),
         trace := trace ?A @ [Save, EditMessage mid MsgActualExceedsLimit NoMarkup True]\<rparr>"
  have r: "download_and_send_video cfg en d st = (Return False, finally_block cfg en d st3)"
    by (simp add: run_to_size_check[OF act ids keys probe noact ok0 dl info]
        after_download_too_large[OF ex big] state_at_size_check_simps ok1 st3_def)
  with run have out: "out = Return False" and st': "st' = finally_block cfg en d st3"
    by simp_all
  have p3: "sess st3 = sess st" "status (heap st3 a) = ''failed''"
    "file_path st3 = Some path" "thumbnail_path st3 = None"
    "trace st3 = trace st @
         [Save, ExtractInfo (url (heap st d)) fmt, Save,
          EditMessage mid (message_to_edit (decide_on_estimate (py_or fs fsa) fmt)) NoMarkup True,
          Download (url (heap st d)) fmt DOWNLOAD_TIMEOUT_SECONDS, ExtractInfoAfterDownload,
          Save, EditMessage mid MsgActualExceedsLimit NoMarkup True]"
    and uid: "unique_id (heap st3 r) = unique_id (heap st r)" for r
    by (simp_all add: st3_def state_at_size_check_simps)
  have a3: "active_download (sess st3) = Some a"
    "unique_id (heap st3 a) = unique_id (heap st3 d)"
    "status (heap st3 a) \<in> set [''completed'', ''cancelled'', ''failed'', ''failed_sending'',
           ''failed_internal'']"
    using act ids by (simp_all add: uid p3)
  from finally_terminal[OF a3, of cfg en]
  have fin: "sess st' = (sess st)\<lparr>active_download := None,
         queue := filter (\<lambda>r. unique_id (heap st r) \<noteq> unique_id (heap st d)) (queue (sess st))\<rparr>"
    "heap st' = heap st3"
    by (simp_all add: st' uid p3)
  have tr: "trace st' = trace st3
         @ (if path \<noteq> [] \<and> SHOULD_DELETE_FILE cfg then [RemoveFile path] else []) @ [Save]"
    by (simp add: st' finally_block_trace p3 ex)
  show ?thesis
    using out fin tr by (simp add: p3)
qed


lemma handled_final:
  assumes act2: "active_download (sess st2) = Some a"
    and ids2: "unique_id (heap st2 a) = unique_id (heap st2 d)"
    and dist2: "distinct (map (\<lambda>r. unique_id (heap st2 r)) (queue (sess st2)))"
  shows "fst (handle_exception en mid a x st2) =
       (if edit_accepted en (edits_before st2) then Return False else Raise TelegramError)
    \<and> status (heap (finally_block cfg en d (snd (handle_exception en mid a x st2))) a)
        = ''failed_last_attempt''
    \<and> active_download (sess (finally_block cfg en d (snd (handle_exception en mid a x st2)))) = None
    \<and> (\<exists>r. filter (\<lambda>q. unique_id (heap (finally_block cfg en d
                 (snd (handle_exception en mid a x st2))) q) = unique_id (heap st2 d))
             (queue (sess (finally_block cfg en d (snd (handle_exception en mid a x st2))))) = [r]
           \<and> status (heap (finally_block cfg en d (snd (handle_exception en mid a x st2))) r)
               = ''failed_last_attempt'')
    \<and> trace (finally_block cfg en d (snd (handle_exception en mid a x st2))) =
        trace st2
        @ [Save, EditMessage mid (if x = DownloadError then MsgProcessingFailed else MsgUnknownError)
             NoMarkup (edit_accepted en (edits_before st2))]
        @ (case file_path st2 of
             None \<Rightarrow> []
           | Some p \<Rightarrow> if p \<noteq> [] \<and> file_exists en \<and> SHOULD_DELETE_FILE cfg
                       then [RemoveFile p] else [])
        @ (case thumbnail_path st2 of
             None \<Rightarrow> []
           | Some p \<Rightarrow> if p \<noteq> [] then [RemoveThumbnail p] else [])
        @ [Save]"
proof -
  define st3 where "st3 = snd (handle_exception en mid a x st2)"
  have p3: "sess st3 = sess st2" "status (heap st3 a) = ''failed_last_attempt''"
    "file_path st3 = file_path st2" "thumbnail_path st3 = thumbnail_path st2"
    "trace st3 = trace st2
        @ [Save, EditMessage mid (if x = DownloadError then MsgProcessingFailed else MsgUnknownError)
             NoMarkup (edit_accepted en (edits_before st2))]"
    and uid: "unique_id (heap st3 r) = unique_id (heap st2 r)" for r
    by (simp_all add: st3_def handle_exception_eq)
  have a3: "active_download (sess st3) = Some a"
    "unique_id (heap st3 a) = unique_id (heap st3 d)"
    "distinct (map (\<lambda>r. unique_id (heap st3 r)) (queue (sess st3)))"
    "status (heap st3 a) = ''parse_failed'' \<or> status (heap st3 a) = ''failed_last_attempt''"
    using act2 ids2 dist2 by (simp_all add: uid p3)
  from finally_retryable[OF a3, of cfg en] finally_block_trace[of cfg en d st3]
  show ?thesis
    unfolding st3_def[symmetric] by (simp add: p3 uid handle_exception_eq)
qed

lemma run_raises_at_size_check:
  assumes act: "active_download (sess st) = Some a"
    and ids: "unique_id (heap st a) = unique_id (heap st d)"
    and keys: "initial_message_id (heap st d) = Some mid" "format_string (heap st d) = Some fmt"
    and probe: "probe en = ProbeInfo t fs fsa"
    and noact: "\<not> action_needed (decide_on_estimate (py_or fs fsa) fmt)"
    and ok0: "edit_accepted en (edits_before st)"
    and dl: "download en = None"
    and info: "info_after_download en = Inr path"
    and ad: "after_download cfg en mid d a path
             (state_at_size_check a mid (url (heap st d)) fmt
                (case t of None \<Rightarrow> title (heap st d) | Some t' \<Rightarrow> t')
                (message_to_edit (decide_on_estimate (py_or fs fsa) fmt)) path st) = (Raise x, st2)"
  shows "download_and_send_video cfg en d st =
     (fst (handle_exception en mid a x st2),
      finally_block cfg en d (snd (handle_exception en mid a x st2)))"
  by (simp add: run_to_size_check[OF act ids keys probe noact ok0 dl info] ad case_prod_beta)


lemma over_50MB_final:
  assumes run: "download_and_send_video cfg en d st = (out, st')"
    and act: "active_download (sess st) = Some a"
    and ids: "unique_id (heap st a) = unique_id (heap st d)"
    and keys: "initial_message_id (heap st d) = Some mid" "format_string (heap st d) = Some fmt"
    and probe: "probe en = ProbeInfo t fs fsa"
    and noact: "\<not> action_needed (decide_on_estimate (py_or fs fsa) fmt)"
    and ok0: "edit_accepted en (edits_before st)"
    and dl: "download en = None"
    and info: "info_after_download en = Inr path"
    and ex: "file_exists en"
    and band: "\<not> actual_file_size en > TELEGRAM_MAX_FILE_SIZE_BYTES"
      "actual_file_size en > TELEGRAM_VIDEO_FILE_SIZE_LIMIT_BYTES"
    and ok1: "edit_accepted en (Suc (edits_before st))"
  shows "out = Return False
    \<and> trace st' = trace st @
         [Save, ExtractInfo (url (heap st d)) fmt, Save,
          EditMessage mid (message_to_edit (decide_on_estimate (py_or fs fsa) fmt)) NoMarkup True,
          Download (url (heap st d)) fmt DOWNLOAD_TIMEOUT_SECONDS, ExtractInfoAfterDownload,
          Save, EditMessage mid MsgActualOver50MB QualityKeyboard True]
         @ (if path \<noteq> [] \<and> SHOULD_DELETE_FILE cfg then [RemoveFile path] else [])
         @ [Save]
    \<and> status (heap st' a) = ''awaiting_quality_selection''
    \<and> sess st' = sess st"
proof -
  let ?A = "state_at_size_check a mid (url (heap st d)) fmt
                (case t of None \<Rightarrow> title (heap st d) | Some t' \<Rightarrow> t')
                (message_to_edit (decide_on_estimate (py_or fs fsa) fmt)) path st"
  define st3 where "st3 = ?A\<lparr>heap := (heap ?A)(a := (heap ?A a)
            \<lparr>status := ''awaiting_quality_selection''\<rparr>),
         trace := trace ?A @ [Save, EditMessage mid MsgActualOver50MB QualityKeyboard True]\<rparr>"
  have r: "download_and_send_video cfg en d st = (Return False, finally_block cfg en d st3)"
    by (simp add: run_to_size_check[OF act ids keys probe noact ok0 dl info]
        after_download_over_50MB[OF ex band] state_at_size_check_simps ok1 st3_def)
  with run have out: "out = Return False" and st': "st' = finally_block cfg en d st3"
    by simp_all
  have p3: "sess st3 = sess st" "status (heap st3 a) = ''awaiting_quality_selection''"
    "file_path st3 = Some path" "thumbnail_path st3 = None"
    "trace st3 = trace st @
         [Save, ExtractInfo (url (heap st d)) fmt, Save,
          EditMessage mid (message_to_edit (decide_on_estimate (py_or fs fsa) fmt)) NoMarkup True,
          Download (url (heap st d)) fmt DOWNLOAD_TIMEOUT_SECONDS, ExtractInfoAfterDownload,
          Save, EditMessage mid MsgActualOver50MB QualityKeyboard True]"
    and uid: "unique_id (heap st3 r) = unique_id (heap st r)" for r
    by (simp_all add: st3_def state_at_size_check_simps)
  have a3: "active_download (sess st3) = Some a"
    "unique_id (heap st3 a) = unique_id (heap st3 d)"
    "status (heap st3 a) = ''awaiting_quality_selection''"
    using act ids by (simp_all add: uid p3)
  from finally_awaiting[OF a3, of cfg en]
  have fin: "sess st' = sess st" "heap st' = heap st3"
    by (simp_all add: st' p3)
  have tr: "trace st' = trace st3
         @ (if path \<noteq> [] \<and> SHOULD_DELETE_FILE cfg then [RemoveFile path] else []) @ [Save]"
    by (simp add: st' finally_block_trace p3 ex)
  show ?thesis
    using out fin tr by (simp add: p3)
qed

lemma too_large_refused_final:
  assumes run: "download_and_send_video cfg en d st = (out, st')"
    and act: "active_download (sess st) = Some a"
    and ids: "unique_id (heap st a) = unique_id (heap st d)"
    and keys: "initial_message_id (heap st d) = Some mid" "format_string (heap st d) = Some fmt"
    and dist: "distinct (map (\<lambda>r. unique_id (heap st r)) (queue (sess st)))"
    and probe: "probe en = ProbeInfo t fs fsa"
    and noact: "\<not> action_needed (decide_on_estimate (py_or fs fsa) fmt)"
    and ok0: "edit_accepted en (edits_before st)"
    and dl: "download en = None"
    and info: "info_after_download en = Inr path"
    and ex: "file_exists en"
    and big: "actual_file_size en > TELEGRAM_MAX_FILE_SIZE_BYTES"
    and no1: "\<not> edit_accepted en (Suc (edits_before st))"
  shows "status (heap st' a) = ''failed_last_attempt''
    \<and> active_download (sess st') = None
    \<and> (\<exists>r. filter (\<lambda>q. unique_id (heap st' q) = unique_id (heap st d)) (queue (sess st')) = [r]
           \<and> status (heap st' r) = ''failed_last_attempt'')"
proof -
  define A where "A = state_at_size_check a mid (url (heap st d)) fmt
                (case t of None \<Rightarrow> title (heap st d) | Some t' \<Rightarrow> t')
                (message_to_edit (decide_on_estimate (py_or fs fsa) fmt)) path st"
  have pA: "sess A = sess st" "edits_before A = Suc (edits_before st)"
    and uidA: "unique_id (heap A r) = unique_id (heap st r)" for r
    by (simp_all add: A_def state_at_size_check_simps)
  define st2 where "st2 = A\<lparr>heap := (heap A)(a := (heap A a)\<lparr>status := ''failed''\<rparr>),
         trace := trace A @ [Save, EditMessage mid MsgActualExceedsLimit NoMarkup False]\<rparr>"
  have ad: "after_download cfg en mid d a path A = (Raise TelegramError, st2)"
    using no1 by (simp add: after_download_too_large[OF ex big] pA st2_def)
  have p2: "sess st2 = sess st"
    and uid2: "unique_id (heap st2 r) = unique_id (heap st r)" for r
    by (simp_all add: st2_def pA uidA)
  have g2: "active_download (sess st2) = Some a" "unique_id (heap st2 a) = unique_id (heap st2 d)"
    "distinct (map (\<lambda>r. unique_id (heap st2 r)) (queue (sess st2)))"
    using act ids dist by (simp_all add: p2 uid2)
  from run_raises_at_size_check[OF act ids keys probe noact ok0 dl info ad[unfolded A_def]] run
  have st': "st' = finally_block cfg en d (snd (handle_exception en mid a TelegramError st2))"
    by simp
  from handled_final[OF g2, of en mid TelegramError cfg]
  show ?thesis
    unfolding st' by (simp add: uid2)
qed

lemma guard_rejects:
  assumes act: "active_download (sess st) = Some a"
    and ids: "unique_id (heap st a) \<noteq> unique_id (heap st d)"
    and keys: "initial_message_id (heap st d) = Some mid" "format_string (heap st d) = Some fmt"
  shows "download_and_send_video cfg en d st =
     (Return False,
      st\<lparr>sess := (sess st)\<lparr>queue :=
              filter (\<lambda>r. unique_id (heap st r) \<noteq> unique_id (heap st d)) (queue (sess st))\<rparr>,
         trace := trace st @ [Save],
         file_path := None, thumbnail_path := None\<rparr>)"
  using assms
  by (simp add: download_and_send_video_def superseded_def Let_def prim_defs)

lemma sample_run_facts:
  "active_download (sess sample_state) = Some 0"
  "initial_message_id (heap sample_state 0) = Some 7"
  "format_string (heap sample_state 0) = Some ''best''"
  "distinct (map (\<lambda>r. unique_id (heap sample_state r)) (queue (sess sample_state)))"
  "edits_before sample_state = 0"
  "url (heap sample_state 0) = ''https://example.org/a''"
  "queue (sess sample_state) = [0, 1]"
  "unique_id (heap sample_state 0) = Some ''id-a''"
  "unique_id (heap sample_state (Suc 0)) = Some ''id-b''"
  "initial_message_id (heap sample_state (Suc 0)) = Some 7"
  "format_string (heap sample_state (Suc 0)) = Some ''best''"
  "trace sample_state = []"
  by (simp_all add: sample_defs edits_before_def)

lemma decide_samples:
  "\<not> action_needed (decide_on_estimate (py_or None None) f)"
  "message_to_edit (decide_on_estimate (py_or None None) f) = MsgSizeUnknown"
  "\<not> action_needed (decide_on_estimate (py_or (Some (100 * 1024 * 1024)) None) ''worst'')"
  "message_to_edit (decide_on_estimate (py_or (Some (100 * 1024 * 1024)) None) ''worst'')
     = MsgStartDownload"
  "message_to_edit (decide_on_estimate (py_or (Some (30 * 1024 * 1024)) None) ''best'')
     = MsgStartDownload"
  by (simp_all add: decide_on_estimate_def py_or_def TELEGRAM_MAX_FILE_SIZE_BYTES_def
      TELEGRAM_VIDEO_FILE_SIZE_LIMIT_BYTES_def)

text \<open>
  Claim C7, as the code has it. When the pipeline is called with an item whose id differs
  from the id of the active item, it returns \<open>False\<close> at once: the only call it makes is
  one save (no probe, no download, no delivery), the active slot and every item
  dictionary are left as they were, and the queue keeps, in order, exactly the entries
  whose id differs from the id of the passed item: the entries of the rejected item are
  removed (line 384).
\<close>

theorem C7_stale_item_rejected:
  assumes "download_and_send_video cfg en d st = (out, st')"
    and "active_download (sess st) = Some a"
    and "unique_id (heap st a) \<noteq> unique_id (heap st d)"
    and "initial_message_id (heap st d) \<noteq> None" and "format_string (heap st d) \<noteq> None"
  shows "out = Return False
    \<and> trace st' = trace st @ [Save]
    \<and> heap st' = heap st
    \<and> active_download (sess st') = Some a
    \<and> queue (sess st') =
         filter (\<lambda>r. unique_id (heap st r) \<noteq> unique_id (heap st d)) (queue (sess st))"
proof -
  from assms(4,5) obtain mid fmt where
    "initial_message_id (heap st d) = Some mid" "format_string (heap st d) = Some fmt"
    by auto
  from guard_rejects[OF assms(2,3) this, of cfg en] assms(1,2) show ?thesis
    by auto
qed

theorem C7_stale_item_rejected_witness:
  "active_download (sess sample_state) = Some 0
   \<and> unique_id (heap sample_state 0) \<noteq> unique_id (heap sample_state 1)
   \<and> fst (download_and_send_video sample_config sample_env 1 sample_state) = Return False
   \<and> trace (snd (download_and_send_video sample_config sample_env 1 sample_state)) = [Save]
   \<and> active_download (sess (snd (download_and_send_video sample_config sample_env 1
        sample_state))) = Some 0
   \<and> queue (sess (snd (download_and_send_video sample_config sample_env 1 sample_state))) = [0]"
  using C7_stale_item_rejected[of sample_config sample_env 1 sample_state
      "fst (download_and_send_video sample_config sample_env 1 sample_state)"
      "snd (download_and_send_video sample_config sample_env 1 sample_state)" 0]
  by (simp add: sample_run_facts)

theorem C7_queue_changed_counterexample:
  "active_download (sess sample_state) = Some 0
   \<and> unique_id (heap sample_state 0) \<noteq> unique_id (heap sample_state 1)
   \<and> queue (sess sample_state) = [0, 1]
   \<and> queue (sess (snd (download_and_send_video sample_config sample_env 1 sample_state)))
       \<noteq> queue (sess sample_state)"
  using guard_rejects[of sample_state 0 1 7 "''best''" sample_config sample_env]
  by (simp add: sample_run_facts)

lemma sample_config_facts:
  "SHOULD_DELETE_FILE sample_config" "TELEGRAM_CHANNEL_ID sample_config = None"
  by (simp_all add: sample_config_def)

text \<open>
  Claim C6, as the code has it. For every run in which the download completes, the file
  exists and its measured size exceeds the upload limit (whatever the estimate was, also
  when there was none), and in which the gateway accepts the edit that reports it: the
  run returns \<open>False\<close>, the item is marked \<open>failed\<close>, every queue entry with its id is
  removed and the active slot is cleared; the report is an edit without buttons, so no
  other quality is offered; nothing is sent to the user. The local file is removed exactly
  when the retention policy \<open>SHOULD_DELETE_FILE\<close> is on; otherwise it is kept.
\<close>

theorem C6_oversized_download:
  assumes "download_and_send_video cfg en d st = (out, st')"
    and "active_download (sess st) = Some a"
    and "unique_id (heap st a) = unique_id (heap st d)"
    and "initial_message_id (heap st d) = Some mid" and "format_string (heap st d) = Some fmt"
    and "probe en = ProbeInfo t fs fsa"
    and "\<not> action_needed (decide_on_estimate (py_or fs fsa) fmt)"
    and "edit_accepted en (edits_before st)"
    and "download en = None"
    and "info_after_download en = Inr path"
    and "file_exists en"
    and "actual_file_size en > TELEGRAM_MAX_FILE_SIZE_BYTES"
    and "edit_accepted en (Suc (edits_before st))"
  shows "out = Return False
    \<and> trace st' = trace st @
         [Save, ExtractInfo (url (heap st d)) fmt, Save,
          EditMessage mid (message_to_edit (decide_on_estimate (py_or fs fsa) fmt)) NoMarkup True,
          Download (url (heap st d)) fmt DOWNLOAD_TIMEOUT_SECONDS, ExtractInfoAfterDownload,
          Save, EditMessage mid MsgActualExceedsLimit NoMarkup True]
         @ (if path \<noteq> [] \<and> SHOULD_DELETE_FILE cfg then [RemoveFile path] else [])
         @ [Save]
    \<and> status (heap st' a) = ''failed''
    \<and> active_download (sess st') = None
    \<and> queue (sess st') =
         filter (\<lambda>r. unique_id (heap st r) \<noteq> unique_id (heap st d)) (queue (sess st))"
  using too_large_final[OF assms] .

lemma sample_oversized_facts:
  "probe (sample_env\<lparr>probe := ProbeInfo (Some ''clip'') None None,
       actual_file_size := 2500000000\<rparr>) = ProbeInfo (Some ''clip'') None None"
  "download (sample_env\<lparr>probe := ProbeInfo (Some ''clip'') None None,
       actual_file_size := 2500000000\<rparr>) = None"
  "info_after_download (sample_env\<lparr>probe := ProbeInfo (Some ''clip'') None None,
       actual_file_size := 2500000000\<rparr>) = Inr ''clip.mp4''"
  "file_exists (sample_env\<lparr>probe := ProbeInfo (Some ''clip'') None None,
       actual_file_size := 2500000000\<rparr>)"
  "actual_file_size (sample_env\<lparr>probe := ProbeInfo (Some ''clip'') None None,
       actual_file_size := 2500000000\<rparr>) > TELEGRAM_MAX_FILE_SIZE_BYTES"
  "edit_accepted (sample_env\<lparr>probe := ProbeInfo (Some ''clip'') None None,
       actual_file_size := 2500000000\<rparr>) n"
  by (simp_all add: sample_env_def TELEGRAM_MAX_FILE_SIZE_BYTES_def)

theorem C6_oversized_download_witness:
  "actual_file_size (sample_env\<lparr>probe := ProbeInfo (Some ''clip'') None None,
       actual_file_size := 2500000000\<rparr>) > TELEGRAM_MAX_FILE_SIZE_BYTES
   \<and> fst (download_and_send_video sample_config
       (sample_env\<lparr>probe := ProbeInfo (Some ''clip'') None None,
          actual_file_size := 2500000000\<rparr>) 0 sample_state) = Return False
   \<and> status (heap (snd (download_and_send_video sample_config
       (sample_env\<lparr>probe := ProbeInfo (Some ''clip'') None None,
          actual_file_size := 2500000000\<rparr>) 0 sample_state)) 0) = ''failed''
   \<and> queue (sess (snd (download_and_send_video sample_config
       (sample_env\<lparr>probe := ProbeInfo (Some ''clip'') None None,
          actual_file_size := 2500000000\<rparr>) 0 sample_state))) = [1]
   \<and> active_download (sess (snd (download_and_send_video sample_config
       (sample_env\<lparr>probe := ProbeInfo (Some ''clip'') None None,
          actual_file_size := 2500000000\<rparr>) 0 sample_state))) = None
   \<and> trace (snd (download_and_send_video sample_config
       (sample_env\<lparr>probe := ProbeInfo (Some ''clip'') None None,
          actual_file_size := 2500000000\<rparr>) 0 sample_state)) =
       [Save, ExtractInfo ''https://example.org/a'' ''best'', Save,
        EditMessage 7 MsgSizeUnknown NoMarkup True,
        Download ''https://example.org/a'' ''best'' 300, ExtractInfoAfterDownload,
        Save, EditMessage 7 MsgActualExceedsLimit NoMarkup True,
        RemoveFile ''clip.mp4'', Save]"
proof -
  let ?en = "sample_env\<lparr>probe := ProbeInfo (Some ''clip'') None None,
       actual_file_size := 2500000000\<rparr>"
  let ?run = "download_and_send_video sample_config ?en 0 sample_state"
  have c: "?run = (fst ?run, snd ?run)" by simp
  from C6_oversized_download[OF c sample_run_facts(1) refl sample_run_facts(2,3)
      sample_oversized_facts(1) decide_samples(1) sample_oversized_facts(6,2,3,4,5,6)]
  show ?thesis
    by (simp add: sample_run_facts decide_samples TELEGRAM_MAX_FILE_SIZE_BYTES_def
        sample_config_facts DOWNLOAD_TIMEOUT_SECONDS_def)
qed

theorem C6_file_kept_counterexample:
  "actual_file_size (sample_env\<lparr>probe := ProbeInfo (Some ''clip'') None None,
       actual_file_size := 2500000000\<rparr>) > TELEGRAM_MAX_FILE_SIZE_BYTES
   \<and> trace (snd (download_and_send_video (sample_config\<lparr>SHOULD_DELETE_FILE := False\<rparr>)
       (sample_env\<lparr>probe := ProbeInfo (Some ''clip'') None None,
          actual_file_size := 2500000000\<rparr>) 0 sample_state)) =
       [Save, ExtractInfo ''https://example.org/a'' ''best'', Save,
        EditMessage 7 MsgSizeUnknown NoMarkup True,
        Download ''https://example.org/a'' ''best'' 300, ExtractInfoAfterDownload,
        Save, EditMessage 7 MsgActualExceedsLimit NoMarkup True, Save]
   \<and> RemoveFile ''clip.mp4'' \<notin> set (trace (snd (download_and_send_video
       (sample_config\<lparr>SHOULD_DELETE_FILE := False\<rparr>)
       (sample_env\<lparr>probe := ProbeInfo (Some ''clip'') None None,
          actual_file_size := 2500000000\<rparr>) 0 sample_state)))
   \<and> status (heap (snd (download_and_send_video sample_config
       (sample_env\<lparr>probe := ProbeInfo (Some ''clip'') None None,
          actual_file_size := 2500000000, edit_accepted := accepts_first_edit_only\<rparr>) 0 sample_state)) 0)
       = ''failed_last_attempt''"
proof -
  let ?en = "sample_env\<lparr>probe := ProbeInfo (Some ''clip'') None None,
       actual_file_size := 2500000000\<rparr>"
  let ?cfg = "sample_config\<lparr>SHOULD_DELETE_FILE := False\<rparr>"
  let ?run = "download_and_send_video ?cfg ?en 0 sample_state"
  have c: "?run = (fst ?run, snd ?run)" by simp
  from too_large_final[OF c sample_run_facts(1) refl sample_run_facts(2,3)
      sample_oversized_facts(1) decide_samples(1) sample_oversized_facts(6,2,3,4,5,6)]
  have kept: "trace (snd ?run) =
       [Save, ExtractInfo ''https://example.org/a'' ''best'', Save,
        EditMessage 7 MsgSizeUnknown NoMarkup True,
        Download ''https://example.org/a'' ''best'' 300, ExtractInfoAfterDownload,
        Save, EditMessage 7 MsgActualExceedsLimit NoMarkup True, Save]"
    by (simp add: sample_run_facts decide_samples DOWNLOAD_TIMEOUT_SECONDS_def)
  let ?en2 = "sample_env\<lparr>probe := ProbeInfo (Some ''clip'') None None,
          actual_file_size := 2500000000, edit_accepted := accepts_first_edit_only\<rparr>"
  let ?run2 = "download_and_send_video sample_config ?en2 0 sample_state"
  have c2: "?run2 = (fst ?run2, snd ?run2)" by simp
  have e2: "probe ?en2 = ProbeInfo (Some ''clip'') None None" "download ?en2 = None"
    "info_after_download ?en2 = Inr ''clip.mp4''" "file_exists ?en2"
    "actual_file_size ?en2 > TELEGRAM_MAX_FILE_SIZE_BYTES"
    "edit_accepted ?en2 (edits_before sample_state)"
    "\<not> edit_accepted ?en2 (Suc (edits_before sample_state))"
    by (simp_all add: sample_env_def TELEGRAM_MAX_FILE_SIZE_BYTES_def sample_run_facts
        accepts_first_edit_only_def)
  from too_large_refused_final[OF c2 sample_run_facts(1) refl sample_run_facts(2,3,4)
      e2(1) decide_samples(1) e2(6,2,3,4,5,7)]
  have r: "status (heap (snd ?run2) 0) = ''failed_last_attempt''"
    by blast
  show ?thesis
    using kept r sample_oversized_facts(5)
    by (simp add: TELEGRAM_MAX_FILE_SIZE_BYTES_def)
qed

text \<open>
  Claim C4, as the code has it. The check after the download does not look at the format
  selector. For every attempt, with the default format or any other, in which the download
  completes, the file exists and its measured size is above 50 MB and not above the upload
  limit, and the gateway accepts the prompt: the run stops before delivery, sets the item
  to \<open>awaiting_quality_selection\<close>, presents the quality buttons again and returns
  \<open>False\<close>; nothing is sent to the user, and the session (slot and queue) is as before.
\<close>

theorem C4_size_recheck_ignores_format:
  assumes "download_and_send_video cfg en d st = (out, st')"
    and "active_download (sess st) = Some a"
    and "unique_id (heap st a) = unique_id (heap st d)"
    and "initial_message_id (heap st d) = Some mid" and "format_string (heap st d) = Some fmt"
    and "probe en = ProbeInfo t fs fsa"
    and "\<not> action_needed (decide_on_estimate (py_or fs fsa) fmt)"
    and "edit_accepted en (edits_before st)"
    and "download en = None"
    and "info_after_download en = Inr path"
    and "file_exists en"
    and "\<not> actual_file_size en > TELEGRAM_MAX_FILE_SIZE_BYTES"
    and "actual_file_size en > TELEGRAM_VIDEO_FILE_SIZE_LIMIT_BYTES"
    and "edit_accepted en (Suc (edits_before st))"
  shows "out = Return False
    \<and> trace st' = trace st @
         [Save, ExtractInfo (url (heap st d)) fmt, Save,
          EditMessage mid (message_to_edit (decide_on_estimate (py_or fs fsa) fmt)) NoMarkup True,
          Download (url (heap st d)) fmt DOWNLOAD_TIMEOUT_SECONDS, ExtractInfoAfterDownload,
          Save, EditMessage mid MsgActualOver50MB QualityKeyboard True]
         @ (if path \<noteq> [] \<and> SHOULD_DELETE_FILE cfg then [RemoveFile path] else [])
         @ [Save]
    \<and> status (heap st' a) = ''awaiting_quality_selection''
    \<and> sess st' = sess st"
  using over_50MB_final[OF assms] .

lemma sample_worst_facts:
  "active_download (sess (set_format_string 0 ''worst'' sample_state)) = Some 0"
  "initial_message_id (heap (set_format_string 0 ''worst'' sample_state) 0) = Some 7"
  "format_string (heap (set_format_string 0 ''worst'' sample_state) 0) = Some ''worst''"
  "edits_before (set_format_string 0 ''worst'' sample_state) = 0"
  "url (heap (set_format_string 0 ''worst'' sample_state) 0) = ''https://example.org/a''"
  "trace (set_format_string 0 ''worst'' sample_state) = []"
  "sess (set_format_string 0 ''worst'' sample_state) = sess sample_state"
  by (simp_all add: set_format_string_def sample_defs edits_before_def)

lemma sample_100MB_facts:
  "probe (sample_env\<lparr>probe := ProbeInfo (Some ''clip'') (Some (100 * 1024 * 1024)) None,
       actual_file_size := 100 * 1024 * 1024\<rparr>)
     = ProbeInfo (Some ''clip'') (Some (100 * 1024 * 1024)) None"
  "download (sample_env\<lparr>probe := ProbeInfo (Some ''clip'') (Some (100 * 1024 * 1024)) None,
       actual_file_size := 100 * 1024 * 1024\<rparr>) = None"
  "info_after_download (sample_env\<lparr>probe := ProbeInfo (Some ''clip'') (Some (100 * 1024 * 1024)) None,
       actual_file_size := 100 * 1024 * 1024\<rparr>) = Inr ''clip.mp4''"
  "file_exists (sample_env\<lparr>probe := ProbeInfo (Some ''clip'') (Some (100 * 1024 * 1024)) None,
       actual_file_size := 100 * 1024 * 1024\<rparr>)"
  "\<not> actual_file_size (sample_env\<lparr>probe := ProbeInfo (Some ''clip'') (Some (100 * 1024 * 1024)) None,
       actual_file_size := 100 * 1024 * 1024\<rparr>) > TELEGRAM_MAX_FILE_SIZE_BYTES"
  "actual_file_size (sample_env\<lparr>probe := ProbeInfo (Some ''clip'') (Some (100 * 1024 * 1024)) None,
       actual_file_size := 100 * 1024 * 1024\<rparr>) > TELEGRAM_VIDEO_FILE_SIZE_LIMIT_BYTES"
  "edit_accepted (sample_env\<lparr>probe := ProbeInfo (Some ''clip'') (Some (100 * 1024 * 1024)) None,
       actual_file_size := 100 * 1024 * 1024\<rparr>) n"
  by (simp_all add: sample_env_def TELEGRAM_MAX_FILE_SIZE_BYTES_def
      TELEGRAM_VIDEO_FILE_SIZE_LIMIT_BYTES_def)

theorem C4_size_recheck_ignores_format_witness:
  "format_string (heap (set_format_string 0 ''worst'' sample_state) 0) = Some ''worst''
   \<and> fst (download_and_send_video sample_config
       (sample_env\<lparr>probe := ProbeInfo (Some ''clip'') (Some (100 * 1024 * 1024)) None,
          actual_file_size := 100 * 1024 * 1024\<rparr>) 0
       (set_format_string 0 ''worst'' sample_state)) = Return False
   \<and> sess (snd (download_and_send_video sample_config
       (sample_env\<lparr>probe := ProbeInfo (Some ''clip'') (Some (100 * 1024 * 1024)) None,
          actual_file_size := 100 * 1024 * 1024\<rparr>) 0
       (set_format_string 0 ''worst'' sample_state))) = sess sample_state"
proof -
  let ?en = "sample_env\<lparr>probe := ProbeInfo (Some ''clip'') (Some (100 * 1024 * 1024)) None,
          actual_file_size := 100 * 1024 * 1024\<rparr>"
  let ?st = "set_format_string 0 ''worst'' sample_state"
  let ?run = "download_and_send_video sample_config ?en 0 ?st"
  have c: "?run = (fst ?run, snd ?run)" by simp
  have ok: "edit_accepted ?en (edits_before ?st)" "edit_accepted ?en (Suc (edits_before ?st))"
    by (rule sample_100MB_facts(7))+
  from C4_size_recheck_ignores_format[OF c sample_worst_facts(1) refl sample_worst_facts(2,3)
      sample_100MB_facts(1) decide_samples(3) ok(1) sample_100MB_facts(2,3,4,5,6) ok(2)]
  show ?thesis
    by (simp add: sample_worst_facts)
qed

theorem C4_reprompt_counterexample:
  "format_string (heap (set_format_string 0 ''worst'' sample_state) 0) = Some ''worst''
   \<and> ''worst'' \<noteq> ''best''
   \<and> actual_file_size (sample_env\<lparr>probe := ProbeInfo (Some ''clip'') (Some (100 * 1024 * 1024)) None,
          actual_file_size := 100 * 1024 * 1024\<rparr>) > TELEGRAM_VIDEO_FILE_SIZE_LIMIT_BYTES
   \<and> actual_file_size (sample_env\<lparr>probe := ProbeInfo (Some ''clip'') (Some (100 * 1024 * 1024)) None,
          actual_file_size := 100 * 1024 * 1024\<rparr>) < TELEGRAM_MAX_FILE_SIZE_BYTES
   \<and> status (heap (snd (download_and_send_video sample_config
       (sample_env\<lparr>probe := ProbeInfo (Some ''clip'') (Some (100 * 1024 * 1024)) None,
          actual_file_size := 100 * 1024 * 1024\<rparr>) 0
       (set_format_string 0 ''worst'' sample_state))) 0) = ''awaiting_quality_selection''
   \<and> trace (snd (download_and_send_video sample_config
       (sample_env\<lparr>probe := ProbeInfo (Some ''clip'') (Some (100 * 1024 * 1024)) None,
          actual_file_size := 100 * 1024 * 1024\<rparr>) 0
       (set_format_string 0 ''worst'' sample_state))) =
       [Save, ExtractInfo ''https://example.org/a'' ''worst'', Save,
        EditMessage 7 MsgStartDownload NoMarkup True,
        Download ''https://example.org/a'' ''worst'' 300, ExtractInfoAfterDownload,
        Save, EditMessage 7 MsgActualOver50MB QualityKeyboard True,
        RemoveFile ''clip.mp4'', Save]"
proof -
  let ?en = "sample_env\<lparr>probe := ProbeInfo (Some ''clip'') (Some (100 * 1024 * 1024)) None,
          actual_file_size := 100 * 1024 * 1024\<rparr>"
  let ?st = "set_format_string 0 ''worst'' sample_state"
  let ?run = "download_and_send_video sample_config ?en 0 ?st"
  have c: "?run = (fst ?run, snd ?run)" by simp
  have ok: "edit_accepted ?en (edits_before ?st)" "edit_accepted ?en (Suc (edits_before ?st))"
    by (rule sample_100MB_facts(7))+
  from over_50MB_final[OF c sample_worst_facts(1) refl sample_worst_facts(2,3)
      sample_100MB_facts(1) decide_samples(3) ok(1) sample_100MB_facts(2,3,4,5,6) ok(2)]
  show ?thesis
    by (simp add: sample_worst_facts decide_on_estimate_def py_or_def sample_config_facts
        DOWNLOAD_TIMEOUT_SECONDS_def TELEGRAM_MAX_FILE_SIZE_BYTES_def
        TELEGRAM_VIDEO_FILE_SIZE_LIMIT_BYTES_def)
qed







lemma setdefault_append:
  "setdefault k v d = d @ (if k \<in> fst ` set d then [] else [(k, v)])"
  by (simp add: setdefault_def)

lemma load_object:
  "load_user_session (Parsed (JObj d)) =
     Some (d @ filter (\<lambda>kv. fst kv \<notin> fst ` set d) empty_session_data)"
  by (simp add: load_user_session_def load_body_def setdefault_append empty_session_data_def)

lemma map_of_append_keep: "k \<in> fst ` set d \<Longrightarrow> map_of (d @ e) k = map_of d k"
  by (simp add: map_of_append map_add_def split: option.splits)
    (metis domIff dom_map_of_conv_image_fst option.distinct(1))

lemma map_of_filter_keys:
  "map_of (filter (\<lambda>kv. P (fst kv)) e) k = (if P k then map_of e k else None)"
  by (induction e) auto

lemma fst_set_filter_keys:
  "fst ` set (filter (\<lambda>kv. P (fst kv)) e) = {k \<in> fst ` set e. P k}"
  by (induction e) auto

text \<open>
  Claim C9. \<open>load_user_session\<close> returns a session exactly when the file holds a JSON
  object, and then the session is the object with one entry appended for each of the four
  fields that is missing: \<open>active_download\<close> as null, \<open>queue\<close> as the empty list, and
  the two message ids as null. So every field of the record is kept with its value, all
  four session fields are present afterwards, and no other field appears. For a missing,
  unreadable or malformed file, and for JSON that is not an object, every exception of the
  body is caught: the result is \<open>None\<close>, and the callers replace it by the empty session.
\<close>

theorem C9_load_defaults:
  "load_user_session fc =
     (case fc of
        Parsed (JObj d) \<Rightarrow> Some (d @ filter (\<lambda>kv. fst kv \<notin> fst ` set d) empty_session_data)
      | _ \<Rightarrow> None)
   \<and> (load_user_session fc = None \<longrightarrow> session_or_empty fc = empty_session_data)
   \<and> (\<forall>x. load_body fc = Inl x \<longrightarrow> load_user_session fc = None)
   \<and> (\<forall>s. load_user_session fc = Some s \<longrightarrow>
         session_or_empty fc = s
         \<and> (\<exists>d. fc = Parsed (JObj d)
              \<and> (\<forall>k\<in>fst ` set d. map_of s k = map_of d k)
              \<and> fst ` set s = fst ` set d \<union> fst ` set empty_session_data
              \<and> (\<forall>k\<in>fst ` set empty_session_data - fst ` set d.
                    map_of s k = map_of empty_session_data k)))"
proof -
  have shape: "load_user_session fc =
     (case fc of
        Parsed (JObj d) \<Rightarrow> Some (d @ filter (\<lambda>kv. fst kv \<notin> fst ` set d) empty_session_data)
      | _ \<Rightarrow> None)"
  proof (cases fc)
    case (Parsed j)
    then show ?thesis
      by (cases j) (simp_all add: load_object, simp_all add: load_user_session_def load_body_def)
  qed (simp_all add: load_user_session_def load_body_def)
  have none: "load_user_session fc = None \<longrightarrow> session_or_empty fc = empty_session_data"
    by (simp add: session_or_empty_def)
  have caught: "\<forall>x. load_body fc = Inl x \<longrightarrow> load_user_session fc = None"
    by (auto simp add: load_user_session_def)
  have some: "session_or_empty fc = s
         \<and> (\<exists>d. fc = Parsed (JObj d)
              \<and> (\<forall>k\<in>fst ` set d. map_of s k = map_of d k)
              \<and> fst ` set s = fst ` set d \<union> fst ` set empty_session_data
              \<and> (\<forall>k\<in>fst ` set empty_session_data - fst ` set d.
                    map_of s k = map_of empty_session_data k))"
    if s: "load_user_session fc = Some s" for s
  proof -
    from s shape obtain d where fc: "fc = Parsed (JObj d)"
      and sd: "s = d @ filter (\<lambda>kv. fst kv \<notin> fst ` set d) empty_session_data"
      by (auto split: file_content.splits json.splits)
    have keep: "\<forall>k\<in>fst ` set d. map_of s k = map_of d k"
    proof
      fix k assume "k \<in> fst ` set d"
      then show "map_of s k = map_of d k"
        unfolding sd by (rule map_of_append_keep)
    qed
    have "fst ` set s = fst ` set d \<union> {k \<in> fst ` set empty_session_data. k \<notin> fst ` set d}"
      unfolding sd
      using fst_set_filter_keys[of "\<lambda>k. k \<notin> fst ` set d" empty_session_data]
      by (simp add: image_Un)
    then have keys: "fst ` set s = fst ` set d \<union> fst ` set empty_session_data"
      by blast
    have dflt: "map_of s k = map_of empty_session_data k"
      if "k \<in> fst ` set empty_session_data - fst ` set d" for k
    proof -
      from that have nd: "map_of d k = None" and nk: "k \<notin> fst ` set d"
        by (simp_all add: map_of_eq_None_iff)
      show ?thesis
        unfolding sd
        using map_of_filter_keys[of "\<lambda>k. k \<notin> fst ` set d" empty_session_data k]
        by (simp add: map_add_def nd nk)
    qed
    from s fc keep keys dflt show ?thesis
      by (simp add: session_or_empty_def)
  qed
  from shape none caught some show ?thesis by blast
qed

theorem C9_load_defaults_witness:
  "load_user_session (Parsed (JObj [(''queue'', JArr [JStr ''x'']), (''note'', JNum 1)])) =
     Some [(''queue'', JArr [JStr ''x'']), (''note'', JNum 1), (''active_download'', JNull),
           (''last_user_message_id'', JNull), (''selection_buttons_message_id'', JNull)]
   \<and> session_or_empty (Parsed (JObj [(''queue'', JArr [JStr ''x'']), (''note'', JNum 1)])) =
       [(''queue'', JArr [JStr ''x'']), (''note'', JNum 1), (''active_download'', JNull),
        (''last_user_message_id'', JNull), (''selection_buttons_message_id'', JNull)]
   \<and> load_body Malformed = Inl OtherError
   \<and> load_user_session Malformed = None
   \<and> load_user_session (Parsed (JArr [])) = None
   \<and> session_or_empty Malformed = empty_session_data"
  using C9_load_defaults[of "Parsed (JObj [(''queue'', JArr [JStr ''x'']), (''note'', JNum 1)])"]
    C9_load_defaults[of Malformed] C9_load_defaults[of "Parsed (JArr [])"]
  by (simp add: empty_session_data_def load_body_def)

end
